theory Spec2Isabelle
  imports Main "HOL-Library.Sublist" "HOL-Library.AList" "HOL-Library.Multiset"
begin

section \<open>Data model\<close>

text \<open>
  The repository holds several variants of one reorg monitor. Two of them are embedded
  here: \<^verbatim>\<open>monitor_reorg.js\<close> (the Anvil monitor with the test-suite; its functions keep
  the source's names) and the Monad Mainnet monitor (the second document of
  \<^verbatim>\<open>get_telegram_chat_id.js\<close>; its functions carry the suffix \<open>_monad\<close>).

  Heights are JavaScript Numbers obtained by \<^verbatim>\<open>Number(block.number)\<close>; they are modelled
  as unbounded integers, which is exact for the safe integers (those of absolute value
  below \<open>2^53\<close>). Hashes are opaque strings compared
  with \<^verbatim>\<open>!==\<close>.
\<close>

text \<open>The JSON-like values handed to \<^verbatim>\<open>logJson\<close> and \<^verbatim>\<open>sendAlert\<close>. \<open>JFixed2 a b\<close> stands
  for the string \<^verbatim>\<open>(a / b).toFixed(2)\<close>, a floating-point rendering that is left uninterpreted.\<close>

datatype json =
    JUndefined
  | JNum int
  | JStr string
  | JFixed2 int int
  | JArr "json list"
  | JObj "(string \<times> json) list"

text \<open>An entry of \<^verbatim>\<open>block.transactions\<close> (fetched with \<^verbatim>\<open>includeTransactions\<close>).\<close>

record transaction =
  tx_hash :: string

text \<open>A block as returned by \<^verbatim>\<open>client.getBlock\<close>.\<close>

record block =
  number :: int
  hash :: string
  parentHash :: string
  stateRoot :: "string option"
  baseFeePerGas :: "int option"
  gasUsed :: int
  transactions :: "transaction list"

text \<open>The value stored in \<^verbatim>\<open>blockCache\<close>: \<^verbatim>\<open>{ hash, parentHash, stateRoot, transactions }\<close>.\<close>

record cached =
  c_hash :: string
  c_parentHash :: string
  c_stateRoot :: "string option"
  c_transactions :: "string list"

text \<open>A value thrown by the client, as far as the handlers look at it: an object with a
  \<^verbatim>\<open>message\<close> property. \<open>Error m\<close> is an object whose message is the string \<open>m\<close>, as that of
  every \<^verbatim>\<open>Error\<close> is; \<open>ErrorNum n\<close> is an object whose message is the number \<open>n\<close>, which
  stands for the messages that are no strings (\<^verbatim>\<open>throw { message: 42 }\<close>). Thrown values
  without a \<^verbatim>\<open>message\<close> property are not modelled.\<close>

datatype jsError = Error string | ErrorNum int

text \<open>\<^verbatim>\<open>err.message\<close>.\<close>

fun err_message :: "jsError \<Rightarrow> json" where
  "err_message (Error m) = JStr m"
| "err_message (ErrorNum n) = JNum n"

text \<open>The argument object of \<^verbatim>\<open>client.getBlock\<close>: \<^verbatim>\<open>{ blockTag: 'latest' }\<close> or
  \<^verbatim>\<open>{ blockNumber, includeTransactions }\<close>.\<close>

datatype blockArgs = Latest | BlockNumber int bool

text \<open>A call of the client, as the monitor issues it.\<close>

datatype call = GetChainId | GetBlock blockArgs

text \<open>
  The injected capabilities. The client is an arbitrary deterministic oracle: its answer
  may depend on how many client calls were made before (the first argument), so the same
  height can be answered differently at two calls of one tick. The clock \<^verbatim>\<open>now\<close> is
  indexed by the number of earlier readings in the same way.
\<close>

record env =
  getBlock :: "nat \<Rightarrow> blockArgs \<Rightarrow> jsError + block"
  getChainId :: "nat \<Rightarrow> jsError + int"
  now :: "nat \<Rightarrow> int"

text \<open>The options of \<^verbatim>\<open>createMonitor\<close> that the tick reads.\<close>

record config =
  recheckDepth :: int
  cacheDepth :: int
  chainMetadataPollMs :: int

text \<open>\<^verbatim>\<open>hourlyStats\<close> of the Monad monitor.\<close>

record hourly =
  startTime :: int
  blocksProcessed :: int
  reorgsDetected :: int
  blocksReplaced :: int
  chainRewinds :: int

text \<open>
  The closure state of \<^verbatim>\<open>createMonitor\<close>. \<^verbatim>\<open>blockCache\<close> is a JavaScript \<^verbatim>\<open>Map\<close>: an
  insertion-ordered association list with distinct keys. \<open>hourlyStats\<close> exists in the
  Monad monitor only; \<^verbatim>\<open>monitor_reorg.js\<close> never touches it. The last four fields record
  the interaction with the outside: the calls of \<^verbatim>\<open>logJson\<close> and \<^verbatim>\<open>sendAlert\<close> in order, the
  client calls issued in order, and how many clock readings were made.
\<close>

record monitor =
  blockCache :: "(int \<times> cached) list"
  maxObservedHeight :: int
  lastProcessedHeight :: int
  lastChainId :: "int option"
  lastGenesisHash :: "string option"
  lastMetadataCheckMs :: int
  hourlyStats :: hourly
  emitted :: "(string \<times> json) list"
  alerts :: "(string \<times> json) list"
  calls :: "call list"
  clockCalls :: nat

text \<open>How a call of an async function completes: it returns, or it throws; either way the
  state it has reached is kept.\<close>

datatype completion = Normal monitor | Throw jsError monitor

section \<open>Helpers\<close>

text \<open>\<^verbatim>\<open>String(n)\<close> / template-literal rendering of an integer Number.\<close>

fun digits :: "nat \<Rightarrow> string" where
  "digits n =
     (if n < 10 then [''0123456789'' ! n]
      else digits (n div 10) @ [''0123456789'' ! (n mod 10)])"

declare digits.simps [simp del]

definition toString :: "int \<Rightarrow> string" where
  "toString i = (if i < 0 then CHR ''-'' # digits (nat (- i)) else digits (nat i))"

text \<open>\<^verbatim>\<open>String.prototype.includes\<close>.\<close>

fun str_includes :: "string \<Rightarrow> string \<Rightarrow> bool" where
  "str_includes [] sub = (sub = [])"
| "str_includes (c # cs) sub = (prefix sub (c # cs) \<or> str_includes cs sub)"

text \<open>The property access \<^verbatim>\<open>obj[name]\<close> on a logged object.\<close>

definition field :: "string \<Rightarrow> json \<Rightarrow> json option" where
  "field name obj = (case obj of JObj kvs \<Rightarrow> map_of kvs name | _ \<Rightarrow> None)"

definition jopt :: "string option \<Rightarrow> json" where
  "jopt v = (case v of None \<Rightarrow> JUndefined | Some x \<Rightarrow> JStr x)"

definition logJson :: "string \<Rightarrow> json \<Rightarrow> monitor \<Rightarrow> monitor" where
  "logJson type data s = s\<lparr>emitted := emitted s @ [(type, data)]\<rparr>"

definition sendAlert :: "string \<Rightarrow> json \<Rightarrow> monitor \<Rightarrow> monitor" where
  "sendAlert type data s = s\<lparr>alerts := alerts s @ [(type, data)]\<rparr>"

definition callGetBlock :: "env \<Rightarrow> blockArgs \<Rightarrow> monitor \<Rightarrow> (jsError + block) \<times> monitor" where
  "callGetBlock e args s =
     (getBlock e (length (calls s)) args, s\<lparr>calls := calls s @ [GetBlock args]\<rparr>)"

definition callGetChainId :: "env \<Rightarrow> monitor \<Rightarrow> (jsError + int) \<times> monitor" where
  "callGetChainId e s =
     (getChainId e (length (calls s)), s\<lparr>calls := calls s @ [GetChainId]\<rparr>)"

definition callNow :: "env \<Rightarrow> monitor \<Rightarrow> int \<times> monitor" where
  "callNow e s = (now e (clockCalls s), s\<lparr>clockCalls := Suc (clockCalls s)\<rparr>)"

text \<open>\<^verbatim>\<open>block.transactions.map(t => t.hash)\<close>.\<close>

definition txHashes :: "block \<Rightarrow> string list" where
  "txHashes blk = map tx_hash (transactions blk)"

text \<open>\<^verbatim>\<open>xs.filter(tx => !new Set(ys).has(tx))\<close>.\<close>

definition filterNotIn :: "string list \<Rightarrow> string list \<Rightarrow> string list" where
  "filterNotIn xs ys = filter (\<lambda>tx. tx \<notin> set ys) xs"

section \<open>processBlock of monitor\_reorg.js\<close>

text \<open>The \<^verbatim>\<open>eventData\<close> object of the BLOCK\_REPLACED branch.\<close>

definition replacedData :: "cached \<Rightarrow> block \<Rightarrow> json" where
  "replacedData c blk = JObj
     [(''height'', JNum (number blk)),
      (''old_hash'', JStr (c_hash c)),
      (''new_hash'', JStr (hash blk)),
      (''old_state_root'', jopt (c_stateRoot c)),
      (''new_state_root'', jopt (stateRoot blk)),
      (''tx_diff'', JObj
         [(''dropped'', JArr (map JStr (filterNotIn (c_transactions c) (txHashes blk)))),
          (''added'', JArr (map JStr (filterNotIn (txHashes blk) (c_transactions c))))]),
      (''severity'', JStr ''CRITICAL'')]"

text \<open>The \<^verbatim>\<open>alertData\<close> object of the parent-hash branch.\<close>

definition mismatchData :: "cached \<Rightarrow> block \<Rightarrow> json" where
  "mismatchData parent blk = JObj
     [(''at_height'', JNum (number blk)),
      (''expected_parent'', JStr (c_hash parent)),
      (''actual_parent'', JStr (parentHash blk)),
      (''severity'', JStr ''CRITICAL'')]"

text \<open>The payload of BLOCK\_RECEIVED.\<close>

definition receivedData :: "block \<Rightarrow> json" where
  "receivedData blk = JObj
     [(''height'', JNum (number blk)),
      (''hash'', JStr (hash blk)),
      (''parent_hash'', JStr (parentHash blk)),
      (''state_root'', jopt (stateRoot blk)),
      (''base_fee'', (case baseFeePerGas blk of None \<Rightarrow> JUndefined | Some f \<Rightarrow> JStr (toString f))),
      (''gas_used'', JStr (toString (gasUsed blk))),
      (''tx_count'', JNum (int (length (txHashes blk)))),
      (''transactions'', JArr (map JStr (txHashes blk)))]"

text \<open>The entry written by \<^verbatim>\<open>blockCache.set\<close>.\<close>

definition fingerprint :: "block \<Rightarrow> cached" where
  "fingerprint blk =
     \<lparr>c_hash = hash blk, c_parentHash = parentHash blk,
      c_stateRoot = stateRoot blk, c_transactions = txHashes blk\<rparr>"

text \<open>Lines 172-191: same height, different hash.\<close>

definition checkReplaced :: "block \<Rightarrow> monitor \<Rightarrow> monitor" where
  "checkReplaced blk s =
     (case map_of (blockCache s) (number blk) of
        None \<Rightarrow> s
      | Some c \<Rightarrow>
          if c_hash c \<noteq> hash blk
          then sendAlert ''BLOCK_REPLACED'' (replacedData c blk)
                 (logJson ''BLOCK_REPLACED'' (replacedData c blk) s)
          else s)"

text \<open>Lines 196-208: the parent hash against the cached block at \<open>height - 1\<close>.\<close>

definition checkParent :: "block \<Rightarrow> monitor \<Rightarrow> monitor" where
  "checkParent blk s =
     (case map_of (blockCache s) (number blk - 1) of
        None \<Rightarrow> s
      | Some parent \<Rightarrow>
          if parentHash blk \<noteq> c_hash parent
          then sendAlert ''PARENT_HASH_MISMATCH_DETECTED'' (mismatchData parent blk)
                 (logJson ''PARENT_HASH_MISMATCH_DETECTED'' (mismatchData parent blk) s)
          else s)"

text \<open>Lines 211-229: log and store a new or replaced block.\<close>

definition updateCache :: "block \<Rightarrow> monitor \<Rightarrow> monitor" where
  "updateCache blk s =
     (if (case map_of (blockCache s) (number blk) of
            None \<Rightarrow> True | Some c \<Rightarrow> c_hash c \<noteq> hash blk)
      then (logJson ''BLOCK_RECEIVED'' (receivedData blk) s)
             \<lparr>blockCache := AList.update (number blk) (fingerprint blk) (blockCache s)\<rparr>
      else s)"

text \<open>Line 231.\<close>

definition bumpMax :: "block \<Rightarrow> monitor \<Rightarrow> monitor" where
  "bumpMax blk s =
     (if number blk > maxObservedHeight s then s\<lparr>maxObservedHeight := number blk\<rparr> else s)"

text \<open>\<^verbatim>\<open>processBlock(blockNumber)\<close>: a failing fetch propagates to the caller.\<close>

definition processBlock :: "env \<Rightarrow> int \<Rightarrow> monitor \<Rightarrow> completion" where
  "processBlock e blockNumber s =
     (case callGetBlock e (BlockNumber blockNumber True) s of
        (Inl err, s1) \<Rightarrow> Throw err s1
      | (Inr blk, s1) \<Rightarrow>
          Normal (bumpMax blk (updateCache blk (checkParent blk (checkReplaced blk s1)))))"

section \<open>tick of monitor\_reorg.js\<close>

text \<open>Lines 240-260: the periodic chain metadata check. \<^verbatim>\<open>Promise.all\<close> issues both calls;
  when both reject, the rejection of \<^verbatim>\<open>getChainId\<close> is taken as the one that wins.\<close>

definition checkMetadata :: "env \<Rightarrow> config \<Rightarrow> int \<Rightarrow> monitor \<Rightarrow> completion" where
  "checkMetadata e cfg nowMs s =
     (if nowMs - lastMetadataCheckMs s \<ge> chainMetadataPollMs cfg then
        (let s1 = s\<lparr>lastMetadataCheckMs := nowMs\<rparr>;
             (r1, s2) = callGetChainId e s1;
             (r2, s3) = callGetBlock e (BlockNumber 0 False) s2
         in case r1 of
              Inl err \<Rightarrow> Throw err s3
            | Inr chainId \<Rightarrow>
               (case r2 of
                  Inl err \<Rightarrow> Throw err s3
                | Inr genesis \<Rightarrow>
                   (let s4 = (case lastChainId s3 of
                                None \<Rightarrow> s3
                              | Some old \<Rightarrow>
                                  if chainId \<noteq> old then
                                    (let alertData = JObj [(''old_chain_id'', JNum old),
                                           (''new_chain_id'', JNum chainId),
                                           (''severity'', JStr ''CRITICAL'')]
                                     in sendAlert ''CHAIN_ID_CHANGED'' alertData
                                          (logJson ''CHAIN_ID_CHANGED'' alertData s3))
                                  else s3);
                        s5 = s4\<lparr>lastChainId := Some chainId\<rparr>;
                        s6 = (case lastGenesisHash s5 of
                                None \<Rightarrow> s5
                              | Some old \<Rightarrow>
                                  if hash genesis \<noteq> old then
                                    (let alertData = JObj [(''old_genesis_hash'', JStr old),
                                           (''new_genesis_hash'', JStr (hash genesis)),
                                           (''severity'', JStr ''CRITICAL'')]
                                     in sendAlert ''GENESIS_CHANGED'' alertData
                                          (logJson ''GENESIS_CHANGED'' alertData s5))
                                  else s5)
                    in Normal (s6\<lparr>lastGenesisHash := Some (hash genesis)\<rparr>))))
      else Normal s)"

text \<open>The \<^verbatim>\<open>alertData\<close> object of CHAIN\_REWIND.\<close>

definition rewindData :: "int \<Rightarrow> int \<Rightarrow> json" where
  "rewindData fromHeight toHeight = JObj
     [(''from_height'', JNum fromHeight),
      (''to_height'', JNum toHeight),
      (''severity'', JStr ''CRITICAL'')]"

text \<open>Lines 267-277: the chain rewind check.\<close>

definition rewindCheck :: "int \<Rightarrow> monitor \<Rightarrow> monitor" where
  "rewindCheck latestHeight s =
     (if latestHeight < maxObservedHeight s then
        (sendAlert ''CHAIN_REWIND'' (rewindData (maxObservedHeight s) latestHeight)
           (logJson ''CHAIN_REWIND'' (rewindData (maxObservedHeight s) latestHeight) s))
          \<lparr>maxObservedHeight := latestHeight, lastProcessedHeight := latestHeight\<rparr>
      else s)"

text \<open>The payload of the RPC\_ERROR logged by the two per-block handlers.\<close>

definition blockErrorData :: "string \<Rightarrow> int \<Rightarrow> jsError \<Rightarrow> json" where
  "blockErrorData what h err = JObj
     [(''message'', JStr (what @ toString h)), (''error'', err_message err)]"

text \<open>Lines 282-291: the forward-sync loop, from \<open>h\<close> on. The counter is a Number: \<open>h + 1\<close>
  is what \<^verbatim>\<open>h++\<close> yields as long as \<open>h\<close> is a safe integer, and the loops are modelled for
  such counters only (at \<open>2^53\<close> the increment of the source no longer advances). The
  section on totality shows that the counters of a tick are safe integers when the tip
  and \<^verbatim>\<open>lastProcessedHeight\<close> are.\<close>

function forwardLoop :: "env \<Rightarrow> int \<Rightarrow> int \<Rightarrow> monitor \<Rightarrow> monitor" where
  "forwardLoop e latestHeight h s =
     (if h \<le> latestHeight then
        (if h < 0 then forwardLoop e latestHeight (h + 1) s
         else case processBlock e h s of
                Normal s' \<Rightarrow> forwardLoop e latestHeight (h + 1) (s'\<lparr>lastProcessedHeight := h\<rparr>)
              | Throw err s' \<Rightarrow>
                  logJson ''RPC_ERROR'' (blockErrorData ''Failed to process block '' h err) s')
      else s)"
  by pat_completeness auto
termination
  by (relation "measure (\<lambda>(e, latestHeight, h, s). nat (latestHeight + 1 - h))") auto

declare forwardLoop.simps [simp del]

text \<open>Lines 281-292.\<close>

definition forwardSync :: "env \<Rightarrow> int \<Rightarrow> monitor \<Rightarrow> monitor" where
  "forwardSync e latestHeight s =
     (if latestHeight > lastProcessedHeight s
      then forwardLoop e latestHeight (lastProcessedHeight s + 1) s
      else s)"

text \<open>Lines 326-338: the recheck loop, from \<open>h\<close> on. The bound \<^verbatim>\<open>lastProcessedHeight\<close> is read
  from the state at every iteration, as the loop condition does; the loop terminates
  because \<^verbatim>\<open>processBlock\<close> never assigns \<^verbatim>\<open>lastProcessedHeight\<close>.\<close>

function recheckLoop :: "env \<Rightarrow> int \<Rightarrow> monitor \<Rightarrow> monitor" where
  "recheckLoop e h s =
     (if h \<le> lastProcessedHeight s then
        (case processBlock e h s of
           Normal s' \<Rightarrow> recheckLoop e (h + 1) s'
         | Throw err s' \<Rightarrow>
             recheckLoop e (h + 1)
               (logJson ''RPC_ERROR'' (blockErrorData ''Recheck failed for '' h err) s'))
      else s)"
  by pat_completeness auto
termination
proof -
  have a: "lastProcessedHeight (checkReplaced blk t) = lastProcessedHeight t" for blk t
    by (simp add: checkReplaced_def logJson_def sendAlert_def split: option.split)
  have b: "lastProcessedHeight (checkParent blk t) = lastProcessedHeight t" for blk t
    by (simp add: checkParent_def logJson_def sendAlert_def split: option.split)
  have c: "lastProcessedHeight (updateCache blk t) = lastProcessedHeight t" for blk t
    by (simp add: updateCache_def logJson_def)
  have d: "lastProcessedHeight (bumpMax blk t) = lastProcessedHeight t" for blk t
    by (simp add: bumpMax_def)
  have keep: "lastProcessedHeight s' = lastProcessedHeight s"
    if "processBlock e h s = Normal s' \<or> processBlock e h s = Throw err s'"
    for e h s s' err
    using that by (auto simp: processBlock_def callGetBlock_def a b c d split: sum.splits)
  show ?thesis
  proof (relation "measure (\<lambda>(e, h, s). nat (lastProcessedHeight s + 1 - h))")
    show "wf (measure (\<lambda>(e, h, s). nat (lastProcessedHeight s + 1 - h)))"
      by simp
  next
    fix e h s s'
    assume "h \<le> lastProcessedHeight s" "processBlock e h s = Normal s'"
    then show "((e, h + 1, s'), (e, h, s))
         \<in> measure (\<lambda>(e, h, s). nat (lastProcessedHeight s + 1 - h))"
      using keep [of e h s s'] by simp
  next
    fix e h s err s'
    assume "h \<le> lastProcessedHeight s" "processBlock e h s = Throw err s'"
    then show "((e, h + 1, logJson ''RPC_ERROR'' (blockErrorData ''Recheck failed for '' h err) s'),
          (e, h, s)) \<in> measure (\<lambda>(e, h, s). nat (lastProcessedHeight s + 1 - h))"
      using keep [of e h s s' err] by (simp add: logJson_def)
  qed
qed

declare recheckLoop.simps [simp del]

text \<open>Lines 301 and 326.\<close>

definition recheck :: "env \<Rightarrow> config \<Rightarrow> int \<Rightarrow> monitor \<Rightarrow> monitor" where
  "recheck e cfg latestHeight s =
     recheckLoop e (max 0 (latestHeight - recheckDepth cfg + 1)) s"

text \<open>Lines 342-344: every key of the map is visited once, and deleted when it is below
  the floor.\<close>

definition pruneCache :: "int \<Rightarrow> (int \<times> cached) list \<Rightarrow> (int \<times> cached) list" where
  "pruneCache minHeightToKeep cache =
     fold (\<lambda>height c. if height < minHeightToKeep then AList.delete height c else c)
       (map fst cache) cache"

text \<open>Lines 341-344.\<close>

definition prune :: "config \<Rightarrow> int \<Rightarrow> monitor \<Rightarrow> monitor" where
  "prune cfg latestHeight s =
     s\<lparr>blockCache := pruneCache (max 0 (latestHeight - cacheDepth cfg + 1)) (blockCache s)\<rparr>"

text \<open>Lines 237-263: the clock reading, the metadata check and the fetch of the latest
  block. The result is the error that ends the \<^verbatim>\<open>try\<close> block, or \<^verbatim>\<open>latestHeight\<close>; either
  comes with the state reached.\<close>

definition fetchTip :: "env \<Rightarrow> config \<Rightarrow> monitor \<Rightarrow> (jsError \<times> monitor) + (int \<times> monitor)" where
  "fetchTip e cfg s =
     (let (nowMs, s0) = callNow e s in
      case checkMetadata e cfg nowMs s0 of
        Throw err s1 \<Rightarrow> Inl (err, s1)
      | Normal s1 \<Rightarrow>
         (case callGetBlock e Latest s1 of
            (Inl err, s2) \<Rightarrow> Inl (err, s2)
          | (Inr latestBlock, s2) \<Rightarrow> Inr (number latestBlock, s2)))"

text \<open>The body of the \<^verbatim>\<open>try\<close> block of \<^verbatim>\<open>tick\<close> (lines 237-344): after the fetch come the
  rewind check, the forward sync, the recheck and the pruning, in this order.\<close>

definition tickBody :: "env \<Rightarrow> config \<Rightarrow> monitor \<Rightarrow> completion" where
  "tickBody e cfg s =
     (case fetchTip e cfg s of
        Inl (err, s1) \<Rightarrow> Throw err s1
      | Inr (latestHeight, s2) \<Rightarrow>
          Normal (prune cfg latestHeight
            (recheck e cfg latestHeight
              (forwardSync e latestHeight
                (rewindCheck latestHeight s2)))))"

text \<open>Lines 345-350: the handler of the top-level \<^verbatim>\<open>catch\<close>. \<^verbatim>\<open>err?.message\<close> is never nullish
  for the thrown values of the model, so \<^verbatim>\<open>String(err)\<close> is not reached. A message that is
  no string has no method \<^verbatim>\<open>includes\<close>: the call throws a \<^verbatim>\<open>TypeError\<close> inside the handler,
  and nothing catches it.\<close>

definition tickGuard :: "jsError \<Rightarrow> monitor \<Rightarrow> completion" where
  "tickGuard err s =
     (case err_message err of
        JStr message \<Rightarrow>
          if \<not> str_includes message ''Block not found''
          then Normal (logJson ''RPC_ERROR'' (JObj [(''error'', JStr message)]) s)
          else Normal s
      | _ \<Rightarrow> Throw (Error ''message.includes is not a function'') s)"

text \<open>\<^verbatim>\<open>tick()\<close>.\<close>

definition tick :: "env \<Rightarrow> config \<Rightarrow> monitor \<Rightarrow> completion" where
  "tick e cfg s =
     (case tickBody e cfg s of
        Normal s' \<Rightarrow> Normal s'
      | Throw err s' \<Rightarrow> tickGuard err s')"

text \<open>The state right after \<^verbatim>\<open>createMonitor\<close>; \<open>t0\<close> is the clock reading taken for
  \<^verbatim>\<open>hourlyStats.startTime\<close> by the Monad monitor.\<close>

definition initial :: "int \<Rightarrow> monitor" where
  "initial t0 =
     \<lparr>blockCache = [], maxObservedHeight = 0, lastProcessedHeight = - 1,
      lastChainId = None, lastGenesisHash = None, lastMetadataCheckMs = 0,
      hourlyStats = \<lparr>startTime = t0, blocksProcessed = 0, reorgsDetected = 0,
        blocksReplaced = 0, chainRewinds = 0\<rparr>,
      emitted = [], alerts = [], calls = [], clockCalls = 0\<rparr>"

section \<open>The Monad Mainnet monitor\<close>

text \<open>Field increments of \<^verbatim>\<open>hourlyStats\<close>.\<close>

definition incBlocksProcessed :: "monitor \<Rightarrow> monitor" where
  "incBlocksProcessed s =
     s\<lparr>hourlyStats := (hourlyStats s)\<lparr>blocksProcessed := blocksProcessed (hourlyStats s) + 1\<rparr>\<rparr>"

definition incBlocksReplaced :: "monitor \<Rightarrow> monitor" where
  "incBlocksReplaced s =
     s\<lparr>hourlyStats := (hourlyStats s)\<lparr>blocksReplaced := blocksReplaced (hourlyStats s) + 1\<rparr>\<rparr>"

definition incReorgsDetected :: "monitor \<Rightarrow> monitor" where
  "incReorgsDetected s =
     s\<lparr>hourlyStats := (hourlyStats s)\<lparr>reorgsDetected := reorgsDetected (hourlyStats s) + 1\<rparr>\<rparr>"

definition incChainRewinds :: "monitor \<Rightarrow> monitor" where
  "incChainRewinds s =
     s\<lparr>hourlyStats := (hourlyStats s)\<lparr>chainRewinds := chainRewinds (hourlyStats s) + 1\<rparr>\<rparr>"

text \<open>\<^verbatim>\<open>resetHourlyStats()\<close>.\<close>

definition resetHourlyStats :: "env \<Rightarrow> monitor \<Rightarrow> monitor" where
  "resetHourlyStats e s =
     (let (t, s1) = callNow e s
      in s1\<lparr>hourlyStats := \<lparr>startTime = t, blocksProcessed = 0, reorgsDetected = 0,
               blocksReplaced = 0, chainRewinds = 0\<rparr>\<rparr>)"

text \<open>Lines 237-246: the threat level and its reasons, starting from \<^verbatim>\<open>"LOW"\<close> and \<^verbatim>\<open>[]\<close>.\<close>

definition threatLevel :: "hourly \<Rightarrow> string \<times> string list" where
  "threatLevel st =
     (if chainRewinds st > 0 then (''CRITICAL'', [''Chain rewind detected''])
      else if reorgsDetected st > 5 \<or> blocksReplaced st > 10
        then (''HIGH'', [''High frequency of reorgs/replacements''])
      else if reorgsDetected st > 0 \<or> blocksReplaced st > 0
        then (''MEDIUM'', [''Minor reorg activity observed''])
      else (''LOW'', []))"

text \<open>The \<^verbatim>\<open>report\<close> object, from the clock reading \<open>t\<close> and the counters.\<close>

definition hourlyReport :: "int \<Rightarrow> hourly \<Rightarrow> json" where
  "hourlyReport t st = JObj
     [(''report_type'', JStr ''HOURLY_ANALYSIS''),
      (''duration_minutes'', JFixed2 (t - startTime st) 60000),
      (''stats'', JObj
         [(''startTime'', JNum (startTime st)),
          (''blocksProcessed'', JNum (blocksProcessed st)),
          (''reorgsDetected'', JNum (reorgsDetected st)),
          (''blocksReplaced'', JNum (blocksReplaced st)),
          (''chainRewinds'', JNum (chainRewinds st))]),
      (''threat_assessment'', JStr (fst (threatLevel st))),
      (''threat_details'', JArr (map JStr (snd (threatLevel st))))]"

text \<open>\<^verbatim>\<open>generateHourlyReport()\<close>.\<close>

definition generateHourlyReport :: "env \<Rightarrow> monitor \<Rightarrow> monitor" where
  "generateHourlyReport e s =
     (let (t, s1) = callNow e s;
          report = hourlyReport t (hourlyStats s1);
          s2 = logJson ''HOURLY_REPORT'' report s1;
          s3 = (if fst (threatLevel (hourlyStats s1)) \<noteq> ''LOW''
                then sendAlert ''HOURLY_THREAT_REPORT'' report s2 else s2)
      in resetHourlyStats e s3)"

text \<open>Lines 278-298 of the Monad monitor.\<close>

definition checkReplaced_monad :: "block \<Rightarrow> monitor \<Rightarrow> monitor" where
  "checkReplaced_monad blk s =
     (case map_of (blockCache s) (number blk) of
        None \<Rightarrow> s
      | Some c \<Rightarrow>
          if c_hash c \<noteq> hash blk
          then sendAlert ''BLOCK_REPLACED'' (replacedData c blk)
                 (logJson ''BLOCK_REPLACED'' (replacedData c blk) (incBlocksReplaced s))
          else s)"

text \<open>Lines 303-316 of the Monad monitor.\<close>

definition checkParent_monad :: "block \<Rightarrow> monitor \<Rightarrow> monitor" where
  "checkParent_monad blk s =
     (case map_of (blockCache s) (number blk - 1) of
        None \<Rightarrow> s
      | Some parent \<Rightarrow>
          if parentHash blk \<noteq> c_hash parent
          then sendAlert ''REORG_DETECTED'' (mismatchData parent blk)
                 (logJson ''REORG_DETECTED'' (mismatchData parent blk) (incReorgsDetected s))
          else s)"

text \<open>\<^verbatim>\<open>processBlock(blockNumber)\<close> of the Monad monitor: the whole body stands in a
  \<^verbatim>\<open>try\<close> whose \<^verbatim>\<open>catch\<close> returns \<^verbatim>\<open>false\<close>.\<close>

definition processBlock_monad :: "env \<Rightarrow> int \<Rightarrow> monitor \<Rightarrow> bool \<times> monitor" where
  "processBlock_monad e blockNumber s =
     (case callGetBlock e (BlockNumber blockNumber True) s of
        (Inl err, s1) \<Rightarrow> (False, s1)
      | (Inr blk, s1) \<Rightarrow>
          (True, bumpMax blk (updateCache blk (checkParent_monad blk
                   (checkReplaced_monad blk (incBlocksProcessed s1))))))"

text \<open>Lines 351-367 of the Monad monitor: the metadata check logs and sends no alert.\<close>

definition checkMetadata_monad :: "env \<Rightarrow> config \<Rightarrow> int \<Rightarrow> monitor \<Rightarrow> completion" where
  "checkMetadata_monad e cfg nowMs s =
     (if nowMs - lastMetadataCheckMs s \<ge> chainMetadataPollMs cfg then
        (let s1 = s\<lparr>lastMetadataCheckMs := nowMs\<rparr>;
             (r1, s2) = callGetChainId e s1;
             (r2, s3) = callGetBlock e (BlockNumber 0 False) s2
         in case r1 of
              Inl err \<Rightarrow> Throw err s3
            | Inr chainId \<Rightarrow>
               (case r2 of
                  Inl err \<Rightarrow> Throw err s3
                | Inr genesis \<Rightarrow>
                   (let s4 = (case lastChainId s3 of
                                None \<Rightarrow> s3
                              | Some old \<Rightarrow>
                                  if chainId \<noteq> old then
                                    logJson ''CHAIN_ID_CHANGED''
                                      (JObj [(''old_chain_id'', JNum old),
                                         (''new_chain_id'', JNum chainId),
                                         (''severity'', JStr ''CRITICAL'')]) s3
                                  else s3);
                        s5 = s4\<lparr>lastChainId := Some chainId\<rparr>;
                        s6 = (case lastGenesisHash s5 of
                                None \<Rightarrow> s5
                              | Some old \<Rightarrow>
                                  if hash genesis \<noteq> old then
                                    logJson ''GENESIS_CHANGED''
                                      (JObj [(''old_genesis_hash'', JStr old),
                                         (''new_genesis_hash'', JStr (hash genesis)),
                                         (''severity'', JStr ''CRITICAL'')]) s5
                                  else s5)
                    in Normal (s6\<lparr>lastGenesisHash := Some (hash genesis)\<rparr>))))
      else Normal s)"

text \<open>Lines 374-380 of the Monad monitor: skipping the history on the first run.\<close>

definition coldStart :: "int \<Rightarrow> monitor \<Rightarrow> monitor" where
  "coldStart latestHeight s =
     (if lastProcessedHeight s = - 1 \<and> latestHeight > 0 then
        (logJson ''MONITOR_SKIP_HISTORY''
           (JObj [(''message'', JStr ''Skipping historical blocks to start from latest''),
                  (''skipped_to_height'', JNum latestHeight)]) s)
          \<lparr>lastProcessedHeight := latestHeight - 1\<rparr>
      else s)"

text \<open>Lines 384-395 of the Monad monitor.\<close>

definition rewindCheck_monad :: "int \<Rightarrow> monitor \<Rightarrow> monitor" where
  "rewindCheck_monad latestHeight s =
     (if latestHeight < maxObservedHeight s then
        (sendAlert ''CHAIN_REWIND'' (rewindData (maxObservedHeight s) latestHeight)
           (logJson ''CHAIN_REWIND'' (rewindData (maxObservedHeight s) latestHeight)
              (incChainRewinds s)))
          \<lparr>maxObservedHeight := latestHeight, lastProcessedHeight := latestHeight\<rparr>
      else s)"

text \<open>Lines 399-402 and 409-411 of the Monad monitor: both loops run
  \<^verbatim>\<open>for (...; h <= latestHeight; h++)\<close> and ignore what \<^verbatim>\<open>processBlock\<close> returns; the
  forward loop skips negative heights. As above, \<open>h + 1\<close> stands for \<^verbatim>\<open>h++\<close> on safe
  integers.\<close>

function forwardLoop_monad :: "env \<Rightarrow> int \<Rightarrow> int \<Rightarrow> monitor \<Rightarrow> monitor" where
  "forwardLoop_monad e latestHeight h s =
     (if h \<le> latestHeight then
        (if h < 0 then forwardLoop_monad e latestHeight (h + 1) s
         else forwardLoop_monad e latestHeight (h + 1) (snd (processBlock_monad e h s)))
      else s)"
  by pat_completeness auto
termination
  by (relation "measure (\<lambda>(e, latestHeight, h, s). nat (latestHeight + 1 - h))") auto

declare forwardLoop_monad.simps [simp del]

function recheckLoop_monad :: "env \<Rightarrow> int \<Rightarrow> int \<Rightarrow> monitor \<Rightarrow> monitor" where
  "recheckLoop_monad e latestHeight h s =
     (if h \<le> latestHeight
      then recheckLoop_monad e latestHeight (h + 1) (snd (processBlock_monad e h s))
      else s)"
  by pat_completeness auto
termination
  by (relation "measure (\<lambda>(e, latestHeight, h, s). nat (latestHeight + 1 - h))") auto

declare recheckLoop_monad.simps [simp del]

text \<open>Lines 398-404 of the Monad monitor.\<close>

definition forwardSync_monad :: "env \<Rightarrow> int \<Rightarrow> monitor \<Rightarrow> monitor" where
  "forwardSync_monad e latestHeight s =
     (if latestHeight > lastProcessedHeight s
      then (forwardLoop_monad e latestHeight (lastProcessedHeight s + 1) s)
             \<lparr>lastProcessedHeight := latestHeight\<rparr>
      else s)"

text \<open>Lines 408-411 of the Monad monitor.\<close>

definition recheck_monad :: "env \<Rightarrow> config \<Rightarrow> int \<Rightarrow> monitor \<Rightarrow> monitor" where
  "recheck_monad e cfg latestHeight s =
     recheckLoop_monad e latestHeight (max 0 (latestHeight - recheckDepth cfg + 1)) s"

text \<open>Lines 348-370 of the Monad monitor.\<close>

definition fetchTip_monad ::
  "env \<Rightarrow> config \<Rightarrow> monitor \<Rightarrow> (jsError \<times> monitor) + (int \<times> monitor)" where
  "fetchTip_monad e cfg s =
     (let (nowMs, s0) = callNow e s in
      case checkMetadata_monad e cfg nowMs s0 of
        Throw err s1 \<Rightarrow> Inl (err, s1)
      | Normal s1 \<Rightarrow>
         (case callGetBlock e Latest s1 of
            (Inl err, s2) \<Rightarrow> Inl (err, s2)
          | (Inr latestBlock, s2) \<Rightarrow> Inr (number latestBlock, s2)))"

text \<open>The body of the \<^verbatim>\<open>try\<close> block of the Monad monitor's \<^verbatim>\<open>tick\<close> (lines 348-417): the
  skipping of the history comes between the fetch and the rewind check.\<close>

definition tickBody_monad :: "env \<Rightarrow> config \<Rightarrow> monitor \<Rightarrow> completion" where
  "tickBody_monad e cfg s =
     (case fetchTip_monad e cfg s of
        Inl (err, s1) \<Rightarrow> Throw err s1
      | Inr (latestHeight, s2) \<Rightarrow>
          Normal (prune cfg latestHeight
            (recheck_monad e cfg latestHeight
              (forwardSync_monad e latestHeight
                (rewindCheck_monad latestHeight
                  (coldStart latestHeight s2))))))"

text \<open>\<^verbatim>\<open>tick()\<close> of the Monad monitor; its guard (lines 418-423) is the one of
  \<^verbatim>\<open>monitor_reorg.js\<close>.\<close>

definition tick_monad :: "env \<Rightarrow> config \<Rightarrow> monitor \<Rightarrow> completion" where
  "tick_monad e cfg s =
     (case tickBody_monad e cfg s of
        Normal s' \<Rightarrow> Normal s'
      | Throw err s' \<Rightarrow> tickGuard err s')"

section \<open>The fixtures of the test-suite\<close>

text \<open>The state a completion ends in.\<close>

fun stateOf :: "completion \<Rightarrow> monitor" where
  "stateOf (Normal s) = s"
| "stateOf (Throw err s) = s"

text \<open>\<^verbatim>\<open>makeBlock\<close> of \<^verbatim>\<open>test/monitor_reorg.test.js\<close>, the state root passed explicitly.\<close>

definition makeBlock :: "int \<Rightarrow> string \<Rightarrow> string \<Rightarrow> string \<Rightarrow> string list \<Rightarrow> block" where
  "makeBlock n h p sr txs =
     \<lparr>number = n, hash = h, parentHash = p, stateRoot = Some sr,
      baseFeePerGas = Some 0, gasUsed = 0,
      transactions = map (\<lambda>x. \<lparr>tx_hash = x\<rparr>) txs\<rparr>"

text \<open>\<^verbatim>\<open>FakeClient\<close> of the test-suite with its chain id, latest height and blocks, and a clock
  that always reads \<open>t\<close>.\<close>

definition fakeClient :: "int \<Rightarrow> int \<Rightarrow> (int \<times> block) list \<Rightarrow> int \<Rightarrow> env" where
  "fakeClient chainId latestHeight blocks t =
     \<lparr>getBlock = (\<lambda>n args.
        case args of
          Latest \<Rightarrow>
            (case map_of blocks latestHeight of
               None \<Rightarrow> Inl (Error ''Block not found'') | Some b \<Rightarrow> Inr b)
        | BlockNumber k incl \<Rightarrow>
            (case map_of blocks k of
               None \<Rightarrow> Inl (Error ''Block not found'') | Some b \<Rightarrow> Inr b)),
      getChainId = (\<lambda>n. Inr chainId),
      now = (\<lambda>n. t)\<rparr>"

text \<open>\<^verbatim>\<open>createLinearChain({ from: 0, to: 2 })\<close>.\<close>

definition chain2 :: "(int \<times> block) list" where
  "chain2 =
     [(0, makeBlock 0 ''0xgenesis'' ''0xgenesis'' ''0xs0'' []),
      (1, makeBlock 1 ''0xblock1'' ''0xgenesis'' ''0xs1'' [''0xtx1a'', ''0xtx1b'']),
      (2, makeBlock 2 ''0xblock2'' ''0xblock1'' ''0xs2'' [''0xtx2a'', ''0xtx2b''])]"




text \<open>\<^verbatim>\<open>createLinearChain({ from: 0, to: 1 })\<close>.\<close>

definition chain1 :: "(int \<times> block) list" where
  "chain1 =
     [(0, makeBlock 0 ''0xgenesis'' ''0xgenesis'' ''0xs0'' []),
      (1, makeBlock 1 ''0xblock1'' ''0xgenesis'' ''0xs1'' [''0xtx1a'', ''0xtx1b''])]"

text \<open>The defaults of \<^verbatim>\<open>createMonitor\<close>, and the state a monitor has after its first tick on
  \<open>chain2\<close>: the three heights cached.\<close>

definition defaults :: config where
  "defaults = \<lparr>recheckDepth = 16, cacheDepth = 2048, chainMetadataPollMs = 10000\<rparr>"

definition synced2 :: monitor where
  "synced2 = stateOf (tick (fakeClient 1 2 chain2 0) defaults (initial 0))"

text \<open>The chain grown to height 4, and a client like \<^verbatim>\<open>FakeClient\<close> whose fetch of the
  height \<open>bad\<close> throws an error with the message \<open>msg\<close>.\<close>

definition chain4 :: "(int \<times> block) list" where
  "chain4 = chain2 @
     [(3, makeBlock 3 ''0xblock3'' ''0xblock2'' ''0xs3'' [''0xtx3a'', ''0xtx3b'']),
      (4, makeBlock 4 ''0xblock4'' ''0xblock3'' ''0xs4'' [''0xtx4a'', ''0xtx4b''])]"

definition flakyClient :: "int \<Rightarrow> (int \<times> block) list \<Rightarrow> int \<Rightarrow> string \<Rightarrow> int \<Rightarrow> env" where
  "flakyClient latestHeight blocks bad msg t =
     \<lparr>getBlock = (\<lambda>n args.
        case args of
          Latest \<Rightarrow>
            (case map_of blocks latestHeight of
               None \<Rightarrow> Inl (Error ''Block not found'') | Some b \<Rightarrow> Inr b)
        | BlockNumber k incl \<Rightarrow>
            if k = bad then Inl (Error msg)
            else (case map_of blocks k of
               None \<Rightarrow> Inl (Error ''Block not found'') | Some b \<Rightarrow> Inr b)),
      getChainId = (\<lambda>n. Inr 1),
      now = (\<lambda>n. t)\<rparr>"

text \<open>A monitor that keeps one height (\<^verbatim>\<open>cacheDepth: 1\<close>), and its state after the first
  tick on \<open>chain2\<close>.\<close>

definition shallow :: config where
  "shallow = \<lparr>recheckDepth = 16, cacheDepth = 1, chainMetadataPollMs = 10000\<rparr>"

definition pruned2 :: monitor where
  "pruned2 = stateOf (tick (fakeClient 1 2 chain2 0) shallow (initial 0))"

text \<open>Scenario S2 of the test-suite: height 2 is replaced by a block with another hash
  and the transactions \<open>0xtx2b\<close>, \<open>0xtx2c\<close>.\<close>

definition chain2_replaced :: "(int \<times> block) list" where
  "chain2_replaced = AList.update 2
     (makeBlock 2 ''0xblock2_new'' ''0xblock1'' ''0xstate2_new'' [''0xtx2b'', ''0xtx2c'']) chain2"

text \<open>Scenario S3 of the test-suite: height 2 is replaced by a block with another parent
  hash. \<open>synced2_monad\<close> is the Monad monitor's state after its first tick on \<open>chain2\<close>.\<close>

definition chain2_reorg :: "(int \<times> block) list" where
  "chain2_reorg = AList.update 2
     (makeBlock 2 ''0xblock2_reorg'' ''0xsome_other_parent'' ''0xs2r'' [''0xtx2x'']) chain2"

definition synced2_monad :: monitor where
  "synced2_monad = stateOf (tick_monad (fakeClient 1 2 chain2 0) defaults (initial 0))"

text \<open>A chain whose block 1 holds the same transaction hash twice, the state after one
  tick on it, and the chain with block 1 replaced by a block that holds the hash once.\<close>

definition dupChain :: "(int \<times> block) list" where
  "dupChain =
     [(0, makeBlock 0 ''0xgenesis'' ''0xgenesis'' ''0xs0'' []),
      (1, makeBlock 1 ''0xold'' ''0xgenesis'' ''0xs1'' [''0xa'', ''0xa''])]"

definition dupChain' :: "(int \<times> block) list" where
  "dupChain' =
     [(0, makeBlock 0 ''0xgenesis'' ''0xgenesis'' ''0xs0'' []),
      (1, makeBlock 1 ''0xnew'' ''0xgenesis'' ''0xs1n'' [''0xa''])]"

definition dupSynced :: monitor where
  "dupSynced = stateOf (tick (fakeClient 1 1 dupChain 0) defaults (initial 0))"

text \<open>The log of \<open>b\<close> is the log of \<open>a\<close> followed by events that all satisfy \<open>P\<close>.\<close>

definition logsOnly :: "(string \<times> json \<Rightarrow> bool) \<Rightarrow> monitor \<Rightarrow> monitor \<Rightarrow> bool" where
  "logsOnly P a b \<longleftrightarrow> (\<exists>new. emitted b = emitted a @ new \<and> list_all P new)"


text \<open>What the specification calls a multiset difference that keeps the order of the
  left operand: \<open>d\<close> is \<open>old\<close> minus \<open>new\<close> when it is a subsequence of \<open>old\<close> with the
  multiplicities of the multiset difference.\<close>

definition spec_multiset_difference :: "string list \<Rightarrow> string list \<Rightarrow> string list \<Rightarrow> bool" where
  "spec_multiset_difference old new d \<longleftrightarrow> subseq d old \<and> mset d = mset old - mset new"

section \<open>Effects of the helpers\<close>

lemma tick_fetched:
  "fetchTip e cfg s = Inr (L, s2) \<Longrightarrow>
   tick e cfg s = Normal (prune cfg L (recheck e cfg L (forwardSync e L (rewindCheck L s2))))"
  by (simp add: tick_def tickBody_def)


lemma tick_monad_fetched:
  "fetchTip_monad e cfg s = Inr (L, s2) \<Longrightarrow>
   tick_monad e cfg s = Normal (prune cfg L (recheck_monad e cfg L
     (forwardSync_monad e L (rewindCheck_monad L (coldStart L s2)))))"
  by (simp add: tick_monad_def tickBody_monad_def)


text \<open>The concrete runs are evaluated in two steps: the fetch of the tip, then the phases.\<close>

lemma synced2_eq:
  "synced2 = (initial 0)
     \<lparr>blockCache := map (\<lambda>(h, b). (h, fingerprint b)) chain2,
      maxObservedHeight := 2, lastProcessedHeight := 2,
      emitted := map (\<lambda>(h, b). (''BLOCK_RECEIVED'', receivedData b)) chain2,
      calls := GetBlock Latest # map (\<lambda>h. GetBlock (BlockNumber h True)) [0, 1, 2, 0, 1, 2],
      clockCalls := 1\<rparr>"
proof -
  have "fetchTip (fakeClient 1 2 chain2 0) defaults (initial 0) =
      Inr (2, (initial 0)\<lparr>calls := [GetBlock Latest], clockCalls := 1\<rparr>)"
    by code_simp
  then have "synced2 = prune defaults 2 (recheck (fakeClient 1 2 chain2 0) defaults 2
     (forwardSync (fakeClient 1 2 chain2 0) 2
        (rewindCheck 2 ((initial 0)\<lparr>calls := [GetBlock Latest], clockCalls := 1\<rparr>))))"
    by (simp add: synced2_def tick_fetched)
  also have "\<dots> = (initial 0)
     \<lparr>blockCache := map (\<lambda>(h, b). (h, fingerprint b)) chain2,
      maxObservedHeight := 2, lastProcessedHeight := 2,
      emitted := map (\<lambda>(h, b). (''BLOCK_RECEIVED'', receivedData b)) chain2,
      calls := GetBlock Latest # map (\<lambda>h. GetBlock (BlockNumber h True)) [0, 1, 2, 0, 1, 2],
      clockCalls := 1\<rparr>"
    by code_simp
  finally show ?thesis .
qed

lemma synced2_monad_eq:
  "synced2_monad = (initial 0)
     \<lparr>blockCache := map (\<lambda>h. (h, fingerprint (the (map_of chain2 h)))) [2, 0, 1],
      maxObservedHeight := 2, lastProcessedHeight := 2,
      hourlyStats := \<lparr>startTime = 0, blocksProcessed = 4, reorgsDetected = 0,
        blocksReplaced = 0, chainRewinds = 0\<rparr>,
      emitted := (''MONITOR_SKIP_HISTORY'',
          JObj [(''message'', JStr ''Skipping historical blocks to start from latest''),
                (''skipped_to_height'', JNum 2)])
        # map (\<lambda>h. (''BLOCK_RECEIVED'', receivedData (the (map_of chain2 h)))) [2, 0, 1],
      calls := GetBlock Latest # map (\<lambda>h. GetBlock (BlockNumber h True)) [2, 0, 1, 2],
      clockCalls := 1\<rparr>"
proof -
  have "fetchTip_monad (fakeClient 1 2 chain2 0) defaults (initial 0) =
      Inr (2, (initial 0)\<lparr>calls := [GetBlock Latest], clockCalls := 1\<rparr>)"
    by code_simp
  then have "synced2_monad = prune defaults 2 (recheck_monad (fakeClient 1 2 chain2 0) defaults 2
     (forwardSync_monad (fakeClient 1 2 chain2 0) 2 (rewindCheck_monad 2
        (coldStart 2 ((initial 0)\<lparr>calls := [GetBlock Latest], clockCalls := 1\<rparr>)))))"
    by (simp add: synced2_monad_def tick_monad_fetched)
  also have "\<dots> = (initial 0)
     \<lparr>blockCache := map (\<lambda>h. (h, fingerprint (the (map_of chain2 h)))) [2, 0, 1],
      maxObservedHeight := 2, lastProcessedHeight := 2,
      hourlyStats := \<lparr>startTime = 0, blocksProcessed = 4, reorgsDetected = 0,
        blocksReplaced = 0, chainRewinds = 0\<rparr>,
      emitted := (''MONITOR_SKIP_HISTORY'',
          JObj [(''message'', JStr ''Skipping historical blocks to start from latest''),
                (''skipped_to_height'', JNum 2)])
        # map (\<lambda>h. (''BLOCK_RECEIVED'', receivedData (the (map_of chain2 h)))) [2, 0, 1],
      calls := GetBlock Latest # map (\<lambda>h. GetBlock (BlockNumber h True)) [2, 0, 1, 2],
      clockCalls := 1\<rparr>"
    by code_simp
  finally show ?thesis .
qed

lemma dupSynced_eq:
  "dupSynced = (initial 0)
     \<lparr>blockCache := map (\<lambda>(h, b). (h, fingerprint b)) dupChain,
      maxObservedHeight := 1, lastProcessedHeight := 1,
      emitted := map (\<lambda>(h, b). (''BLOCK_RECEIVED'', receivedData b)) dupChain,
      calls := GetBlock Latest # map (\<lambda>h. GetBlock (BlockNumber h True)) [0, 1, 0, 1],
      clockCalls := 1\<rparr>"
proof -
  have "fetchTip (fakeClient 1 1 dupChain 0) defaults (initial 0) =
      Inr (1, (initial 0)\<lparr>calls := [GetBlock Latest], clockCalls := 1\<rparr>)"
    by code_simp
  then have "dupSynced = prune defaults 1 (recheck (fakeClient 1 1 dupChain 0) defaults 1
     (forwardSync (fakeClient 1 1 dupChain 0) 1
        (rewindCheck 1 ((initial 0)\<lparr>calls := [GetBlock Latest], clockCalls := 1\<rparr>))))"
    by (simp add: dupSynced_def tick_fetched)
  also have "\<dots> = (initial 0)
     \<lparr>blockCache := map (\<lambda>(h, b). (h, fingerprint b)) dupChain,
      maxObservedHeight := 1, lastProcessedHeight := 1,
      emitted := map (\<lambda>(h, b). (''BLOCK_RECEIVED'', receivedData b)) dupChain,
      calls := GetBlock Latest # map (\<lambda>h. GetBlock (BlockNumber h True)) [0, 1, 0, 1],
      clockCalls := 1\<rparr>"
    by code_simp
  finally show ?thesis .
qed

lemma synced2_state:
  "blockCache synced2 = map (\<lambda>(h, b). (h, fingerprint b)) chain2"
  "maxObservedHeight synced2 = 2"
  "lastProcessedHeight synced2 = 2"
  "alerts synced2 = []"
  by (simp_all add: synced2_eq initial_def)

lemma logJson_fields [simp]:
  "blockCache (logJson t d s) = blockCache s"
  "maxObservedHeight (logJson t d s) = maxObservedHeight s"
  "lastProcessedHeight (logJson t d s) = lastProcessedHeight s"
  "lastChainId (logJson t d s) = lastChainId s"
  "lastGenesisHash (logJson t d s) = lastGenesisHash s"
  "lastMetadataCheckMs (logJson t d s) = lastMetadataCheckMs s"
  "hourlyStats (logJson t d s) = hourlyStats s"
  "emitted (logJson t d s) = emitted s @ [(t, d)]"
  "alerts (logJson t d s) = alerts s"
  "calls (logJson t d s) = calls s"
  "clockCalls (logJson t d s) = clockCalls s"
  by (simp_all add: logJson_def)

lemma sendAlert_fields [simp]:
  "blockCache (sendAlert t d s) = blockCache s"
  "maxObservedHeight (sendAlert t d s) = maxObservedHeight s"
  "lastProcessedHeight (sendAlert t d s) = lastProcessedHeight s"
  "lastChainId (sendAlert t d s) = lastChainId s"
  "lastGenesisHash (sendAlert t d s) = lastGenesisHash s"
  "lastMetadataCheckMs (sendAlert t d s) = lastMetadataCheckMs s"
  "hourlyStats (sendAlert t d s) = hourlyStats s"
  "emitted (sendAlert t d s) = emitted s"
  "alerts (sendAlert t d s) = alerts s @ [(t, d)]"
  "calls (sendAlert t d s) = calls s"
  "clockCalls (sendAlert t d s) = clockCalls s"
  by (simp_all add: sendAlert_def)

lemma checkReplaced_fields [simp]:
  "blockCache (checkReplaced blk s) = blockCache s"
  "maxObservedHeight (checkReplaced blk s) = maxObservedHeight s"
  "lastProcessedHeight (checkReplaced blk s) = lastProcessedHeight s"
  "hourlyStats (checkReplaced blk s) = hourlyStats s"
  "calls (checkReplaced blk s) = calls s"
  "clockCalls (checkReplaced blk s) = clockCalls s"
  by (simp_all add: checkReplaced_def split: option.split)

lemma checkReplaced_emitted:
  "emitted (checkReplaced blk s) = emitted s @
     (case map_of (blockCache s) (number blk) of
        None \<Rightarrow> []
      | Some c \<Rightarrow> if c_hash c \<noteq> hash blk then [(''BLOCK_REPLACED'', replacedData c blk)] else [])"
  by (simp add: checkReplaced_def split: option.split)

lemma checkReplaced_alerts:
  "alerts (checkReplaced blk s) = alerts s @
     (case map_of (blockCache s) (number blk) of
        None \<Rightarrow> []
      | Some c \<Rightarrow> if c_hash c \<noteq> hash blk then [(''BLOCK_REPLACED'', replacedData c blk)] else [])"
  by (simp add: checkReplaced_def split: option.split)

lemma checkParent_fields [simp]:
  "blockCache (checkParent blk s) = blockCache s"
  "maxObservedHeight (checkParent blk s) = maxObservedHeight s"
  "lastProcessedHeight (checkParent blk s) = lastProcessedHeight s"
  "hourlyStats (checkParent blk s) = hourlyStats s"
  "calls (checkParent blk s) = calls s"
  "clockCalls (checkParent blk s) = clockCalls s"
  by (simp_all add: checkParent_def split: option.split)

lemma checkParent_emitted:
  "emitted (checkParent blk s) = emitted s @
     (case map_of (blockCache s) (number blk - 1) of
        None \<Rightarrow> []
      | Some p \<Rightarrow> if parentHash blk \<noteq> c_hash p
          then [(''PARENT_HASH_MISMATCH_DETECTED'', mismatchData p blk)] else [])"
  by (simp add: checkParent_def split: option.split)

lemma checkParent_alerts:
  "alerts (checkParent blk s) = alerts s @
     (case map_of (blockCache s) (number blk - 1) of
        None \<Rightarrow> []
      | Some p \<Rightarrow> if parentHash blk \<noteq> c_hash p
          then [(''PARENT_HASH_MISMATCH_DETECTED'', mismatchData p blk)] else [])"
  by (simp add: checkParent_def split: option.split)

lemma updateCache_fields [simp]:
  "maxObservedHeight (updateCache blk s) = maxObservedHeight s"
  "lastProcessedHeight (updateCache blk s) = lastProcessedHeight s"
  "hourlyStats (updateCache blk s) = hourlyStats s"
  "alerts (updateCache blk s) = alerts s"
  "calls (updateCache blk s) = calls s"
  "clockCalls (updateCache blk s) = clockCalls s"
  by (simp_all add: updateCache_def)

lemma updateCache_emitted:
  "emitted (updateCache blk s) = emitted s @
     (if (case map_of (blockCache s) (number blk) of
            None \<Rightarrow> True | Some c \<Rightarrow> c_hash c \<noteq> hash blk)
      then [(''BLOCK_RECEIVED'', receivedData blk)] else [])"
  by (simp add: updateCache_def)

lemma updateCache_blockCache:
  "blockCache (updateCache blk s) =
     (if (case map_of (blockCache s) (number blk) of
            None \<Rightarrow> True | Some c \<Rightarrow> c_hash c \<noteq> hash blk)
      then AList.update (number blk) (fingerprint blk) (blockCache s) else blockCache s)"
  by (simp add: updateCache_def)

lemma bumpMax_fields [simp]:
  "blockCache (bumpMax blk s) = blockCache s"
  "lastProcessedHeight (bumpMax blk s) = lastProcessedHeight s"
  "hourlyStats (bumpMax blk s) = hourlyStats s"
  "emitted (bumpMax blk s) = emitted s"
  "alerts (bumpMax blk s) = alerts s"
  "calls (bumpMax blk s) = calls s"
  "clockCalls (bumpMax blk s) = clockCalls s"
  "maxObservedHeight (bumpMax blk s) = max (maxObservedHeight s) (number blk)"
  by (simp_all add: bumpMax_def)

lemma processBlock_fetched:
  "getBlock e (length (calls s)) (BlockNumber h True) = Inr blk \<Longrightarrow>
   processBlock e h s =
     Normal (bumpMax blk (updateCache blk (checkParent blk (checkReplaced blk
       (s\<lparr>calls := calls s @ [GetBlock (BlockNumber h True)]\<rparr>)))))"
  by (simp add: processBlock_def callGetBlock_def)

lemma processBlock_failed:
  "getBlock e (length (calls s)) (BlockNumber h True) = Inl err \<Longrightarrow>
   processBlock e h s = Throw err (s\<lparr>calls := calls s @ [GetBlock (BlockNumber h True)]\<rparr>)"
  by (simp add: processBlock_def callGetBlock_def)

lemma processBlock_lastProcessedHeight:
  "processBlock e h s = Normal s' \<or> processBlock e h s = Throw err s'
   \<Longrightarrow> lastProcessedHeight s' = lastProcessedHeight s"
  by (cases "getBlock e (length (calls s)) (BlockNumber h True)")
     (auto simp: processBlock_fetched processBlock_failed)

section \<open>The claims about processBlock\<close>

text \<open>
  C8. \<^verbatim>\<open>processBlock\<close> is idempotent on an unchanged block: when the block fetched for
  height \<open>h\<close> has the hash that is cached at \<open>h\<close>, and the entry cached at \<open>h - 1\<close>, if there
  is one, has the block's parent hash, the call logs no event at all (so no
  BLOCK\_REPLACED, no parent-hash mismatch and no BLOCK\_RECEIVED), sends no alert and
  leaves the block cache exactly as it was.
\<close>

theorem processBlock_unchanged_block:
  assumes "getBlock e (length (calls s)) (BlockNumber h True) = Inr blk"
      and "number blk = h"
      and "map_of (blockCache s) h = Some c"
      and "c_hash c = hash blk"
      and "case map_of (blockCache s) (h - 1) of
             None \<Rightarrow> True | Some p \<Rightarrow> c_hash p = parentHash blk"
  shows "\<exists>s'. processBlock e h s = Normal s' \<and> emitted s' = emitted s \<and>
           alerts s' = alerts s \<and> blockCache s' = blockCache s"
proof -
  have par: "(case map_of (blockCache s) (number blk - 1) of
        None \<Rightarrow> []
      | Some p \<Rightarrow> if parentHash blk \<noteq> c_hash p
          then [(''PARENT_HASH_MISMATCH_DETECTED'', mismatchData p blk)] else []) = []"
    using assms(2,5) by (auto split: option.split)
  show ?thesis
    using assms(2-4) par
    by (simp add: processBlock_fetched [OF assms(1)] updateCache_emitted updateCache_blockCache
          checkParent_emitted checkParent_alerts checkReplaced_emitted checkReplaced_alerts)
qed

theorem processBlock_unchanged_block_witness:
  "\<exists>s'. processBlock (fakeClient 1 2 chain2 0) 2 synced2 = Normal s' \<and>
     emitted s' = emitted synced2 \<and> alerts s' = alerts synced2 \<and>
     blockCache s' = blockCache synced2"
  by (rule processBlock_unchanged_block
        [where blk = "makeBlock 2 ''0xblock2'' ''0xblock1'' ''0xs2'' [''0xtx2a'', ''0xtx2b'']"
           and c = "fingerprint (makeBlock 2 ''0xblock2'' ''0xblock1'' ''0xs2''
                      [''0xtx2a'', ''0xtx2b''])"])
     (simp_all add: fakeClient_def chain2_def synced2_state makeBlock_def
        fingerprint_def txHashes_def)

text \<open>
  C1 (as amended). When the cache holds a fingerprint \<open>fp_old\<close> at \<open>h\<close> and the block
  fetched for \<open>h\<close> has another hash, \<^verbatim>\<open>processBlock\<close> logs, first of all, a BLOCK\_REPLACED
  event with the height, both hashes, both state roots, severity CRITICAL and a
  \<open>tx_diff\<close> whose \<open>dropped\<close> lists, in the old order, the cached hashes that do not occur
  among the new block's hashes, and whose \<open>added\<close> lists, in the new order, the new
  hashes that do not occur among the cached ones. Membership is by hash identity in the
  set of the other side; a hash that occurs on both sides is left out of both lists
  whatever its multiplicities.
\<close>

theorem processBlock_block_replaced:
  assumes "getBlock e (length (calls s)) (BlockNumber h True) = Inr blk"
      and "number blk = h"
      and "map_of (blockCache s) h = Some fp_old"
      and "c_hash fp_old \<noteq> hash blk"
  shows "\<exists>s' rest. processBlock e h s = Normal s' \<and>
           emitted s' = emitted s @
             (''BLOCK_REPLACED'', JObj
                [(''height'', JNum h),
                 (''old_hash'', JStr (c_hash fp_old)),
                 (''new_hash'', JStr (hash blk)),
                 (''old_state_root'', jopt (c_stateRoot fp_old)),
                 (''new_state_root'', jopt (stateRoot blk)),
                 (''tx_diff'', JObj
                    [(''dropped'', JArr (map JStr
                        (filter (\<lambda>tx. tx \<notin> set (map tx_hash (transactions blk)))
                           (c_transactions fp_old)))),
                     (''added'', JArr (map JStr
                        (filter (\<lambda>tx. tx \<notin> set (c_transactions fp_old))
                           (map tx_hash (transactions blk)))))]),
                 (''severity'', JStr ''CRITICAL'')]) # rest"
  using assms(2-4)
  by (simp add: processBlock_fetched [OF assms(1)] updateCache_emitted
        checkParent_emitted checkReplaced_emitted replacedData_def filterNotIn_def txHashes_def)

theorem processBlock_block_replaced_witness:
  "\<exists>s' rest. processBlock (fakeClient 1 2 chain2_replaced 1) 2 synced2 = Normal s' \<and>
     emitted s' = emitted synced2 @
       (''BLOCK_REPLACED'', JObj
          [(''height'', JNum 2),
           (''old_hash'', JStr ''0xblock2''),
           (''new_hash'', JStr ''0xblock2_new''),
           (''old_state_root'', JStr ''0xs2''),
           (''new_state_root'', JStr ''0xstate2_new''),
           (''tx_diff'', JObj
              [(''dropped'', JArr [JStr ''0xtx2a'']), (''added'', JArr [JStr ''0xtx2c''])]),
           (''severity'', JStr ''CRITICAL'')]) # rest"
proof -
  let ?blk = "makeBlock 2 ''0xblock2_new'' ''0xblock1'' ''0xstate2_new'' [''0xtx2b'', ''0xtx2c'']"
  let ?c = "fingerprint (makeBlock 2 ''0xblock2'' ''0xblock1'' ''0xs2'' [''0xtx2a'', ''0xtx2b''])"
  have h1: "getBlock (fakeClient 1 2 chain2_replaced 1) (length (calls synced2))
              (BlockNumber 2 True) = Inr ?blk"
    by (simp add: fakeClient_def chain2_replaced_def chain2_def)
  have h2: "number ?blk = 2"
    by (simp add: makeBlock_def)
  have h3: "map_of (blockCache synced2) 2 = Some ?c"
    by (simp add: synced2_state chain2_def)
  have h4: "c_hash ?c \<noteq> hash ?blk"
    by (simp add: makeBlock_def fingerprint_def)
  from processBlock_block_replaced [OF h1 h2 h3 h4] show ?thesis
    by (simp add: makeBlock_def fingerprint_def txHashes_def jopt_def)
qed

text \<open>
  The difference is not a multiset difference: with \<open>0xa\<close> cached twice and fetched once,
  the multiset difference holds \<open>0xa\<close> once, and \<open>dropped\<close> is empty.
\<close>

theorem processBlock_tx_diff_counterexample:
  "drop (length (emitted dupSynced))
     (emitted (stateOf (processBlock (fakeClient 1 1 dupChain' 1) 1 dupSynced))) =
     [(''BLOCK_REPLACED'', JObj
         [(''height'', JNum 1),
          (''old_hash'', JStr ''0xold''),
          (''new_hash'', JStr ''0xnew''),
          (''old_state_root'', JStr ''0xs1''),
          (''new_state_root'', JStr ''0xs1n''),
          (''tx_diff'', JObj [(''dropped'', JArr []), (''added'', JArr [])]),
          (''severity'', JStr ''CRITICAL'')]),
      (''BLOCK_RECEIVED'', receivedData (makeBlock 1 ''0xnew'' ''0xgenesis'' ''0xs1n'' [''0xa'']))]
   \<and> c_transactions (the (map_of (blockCache dupSynced) 1)) = [''0xa'', ''0xa'']
   \<and> \<not> spec_multiset_difference [''0xa'', ''0xa''] [''0xa''] []"
proof -
  have "\<not> spec_multiset_difference [''0xa'', ''0xa''] [''0xa''] []"
    by (simp add: spec_multiset_difference_def)
  moreover have "drop (length (emitted dupSynced))
     (emitted (stateOf (processBlock (fakeClient 1 1 dupChain' 1) 1 dupSynced))) =
     [(''BLOCK_REPLACED'', JObj
         [(''height'', JNum 1),
          (''old_hash'', JStr ''0xold''),
          (''new_hash'', JStr ''0xnew''),
          (''old_state_root'', JStr ''0xs1''),
          (''new_state_root'', JStr ''0xs1n''),
          (''tx_diff'', JObj [(''dropped'', JArr []), (''added'', JArr [])]),
          (''severity'', JStr ''CRITICAL'')]),
      (''BLOCK_RECEIVED'', receivedData (makeBlock 1 ''0xnew'' ''0xgenesis'' ''0xs1n'' [''0xa'']))]"
    unfolding dupSynced_eq by code_simp
  moreover have "c_transactions (the (map_of (blockCache dupSynced) 1)) = [''0xa'', ''0xa'']"
    unfolding dupSynced_eq by code_simp
  ultimately show ?thesis by blast
qed

section \<open>Effects of the Monad monitor's helpers\<close>

lemma inc_fields [simp]:
  "blockCache (incBlocksProcessed s) = blockCache s"
  "emitted (incBlocksProcessed s) = emitted s"
  "alerts (incBlocksProcessed s) = alerts s"
  "maxObservedHeight (incBlocksProcessed s) = maxObservedHeight s"
  "lastProcessedHeight (incBlocksProcessed s) = lastProcessedHeight s"
  "calls (incBlocksProcessed s) = calls s"
  "clockCalls (incBlocksProcessed s) = clockCalls s"
  "blockCache (incBlocksReplaced s) = blockCache s"
  "emitted (incBlocksReplaced s) = emitted s"
  "alerts (incBlocksReplaced s) = alerts s"
  "maxObservedHeight (incBlocksReplaced s) = maxObservedHeight s"
  "lastProcessedHeight (incBlocksReplaced s) = lastProcessedHeight s"
  "calls (incBlocksReplaced s) = calls s"
  "clockCalls (incBlocksReplaced s) = clockCalls s"
  "blockCache (incReorgsDetected s) = blockCache s"
  "emitted (incReorgsDetected s) = emitted s"
  "alerts (incReorgsDetected s) = alerts s"
  "maxObservedHeight (incReorgsDetected s) = maxObservedHeight s"
  "lastProcessedHeight (incReorgsDetected s) = lastProcessedHeight s"
  "calls (incReorgsDetected s) = calls s"
  "clockCalls (incReorgsDetected s) = clockCalls s"
  "blockCache (incChainRewinds s) = blockCache s"
  "emitted (incChainRewinds s) = emitted s"
  "alerts (incChainRewinds s) = alerts s"
  "maxObservedHeight (incChainRewinds s) = maxObservedHeight s"
  "lastProcessedHeight (incChainRewinds s) = lastProcessedHeight s"
  "calls (incChainRewinds s) = calls s"
  "clockCalls (incChainRewinds s) = clockCalls s"
  by (simp_all add: incBlocksProcessed_def incBlocksReplaced_def incReorgsDetected_def
        incChainRewinds_def)

lemma checkReplaced_monad_fields [simp]:
  "blockCache (checkReplaced_monad blk s) = blockCache s"
  "maxObservedHeight (checkReplaced_monad blk s) = maxObservedHeight s"
  "lastProcessedHeight (checkReplaced_monad blk s) = lastProcessedHeight s"
  "calls (checkReplaced_monad blk s) = calls s"
  "clockCalls (checkReplaced_monad blk s) = clockCalls s"
  by (simp_all add: checkReplaced_monad_def split: option.split)

lemma checkReplaced_monad_emitted:
  "emitted (checkReplaced_monad blk s) = emitted s @
     (case map_of (blockCache s) (number blk) of
        None \<Rightarrow> []
      | Some c \<Rightarrow> if c_hash c \<noteq> hash blk then [(''BLOCK_REPLACED'', replacedData c blk)] else [])"
  by (simp add: checkReplaced_monad_def split: option.split)

lemma checkParent_monad_fields [simp]:
  "blockCache (checkParent_monad blk s) = blockCache s"
  "maxObservedHeight (checkParent_monad blk s) = maxObservedHeight s"
  "lastProcessedHeight (checkParent_monad blk s) = lastProcessedHeight s"
  "calls (checkParent_monad blk s) = calls s"
  "clockCalls (checkParent_monad blk s) = clockCalls s"
  by (simp_all add: checkParent_monad_def split: option.split)

lemma checkParent_monad_emitted:
  "emitted (checkParent_monad blk s) = emitted s @
     (case map_of (blockCache s) (number blk - 1) of
        None \<Rightarrow> []
      | Some p \<Rightarrow> if parentHash blk \<noteq> c_hash p
          then [(''REORG_DETECTED'', mismatchData p blk)] else [])"
  by (simp add: checkParent_monad_def split: option.split)

lemma processBlock_monad_fetched:
  "getBlock e (length (calls s)) (BlockNumber h True) = Inr blk \<Longrightarrow>
   processBlock_monad e h s =
     (True, bumpMax blk (updateCache blk (checkParent_monad blk (checkReplaced_monad blk
       (incBlocksProcessed (s\<lparr>calls := calls s @ [GetBlock (BlockNumber h True)]\<rparr>))))))"
  by (simp add: processBlock_monad_def callGetBlock_def)

lemma processBlock_monad_failed:
  "getBlock e (length (calls s)) (BlockNumber h True) = Inl err \<Longrightarrow>
   processBlock_monad e h s = (False, s\<lparr>calls := calls s @ [GetBlock (BlockNumber h True)]\<rparr>)"
  by (simp add: processBlock_monad_def callGetBlock_def)


section \<open>The parent-hash rule\<close>

text \<open>
  C2 (as amended). When the cache holds an entry at \<open>h - 1\<close> whose hash differs from the
  parent hash of the block fetched for \<open>h\<close>, \<^verbatim>\<open>processBlock\<close> logs exactly one event for
  this condition, after the BLOCK\_REPLACED event of the same call if there is one and
  before BLOCK\_RECEIVED; it carries \<open>at_height = h\<close>, \<open>expected_parent\<close> (the cached hash
  at \<open>h - 1\<close>), \<open>actual_parent\<close> (the fetched parent hash) and severity CRITICAL. Its event
  type is PARENT\_HASH\_MISMATCH\_DETECTED in \<^verbatim>\<open>monitor_reorg.js\<close> and REORG\_DETECTED in the
  Monad monitor; neither monitor logs both names.
\<close>

theorem processBlock_parent_mismatch:
  assumes "getBlock e (length (calls s)) (BlockNumber h True) = Inr blk"
      and "number blk = h"
      and "map_of (blockCache s) (h - 1) = Some parent"
      and "c_hash parent \<noteq> parentHash blk"
  shows "(\<exists>s'. processBlock e h s = Normal s' \<and>
           emitted s' = emitted s @
             (case map_of (blockCache s) h of
                None \<Rightarrow> []
              | Some c \<Rightarrow>
                  if c_hash c \<noteq> hash blk then [(''BLOCK_REPLACED'', replacedData c blk)] else [])
             @ [(''PARENT_HASH_MISMATCH_DETECTED'', JObj
                   [(''at_height'', JNum h),
                    (''expected_parent'', JStr (c_hash parent)),
                    (''actual_parent'', JStr (parentHash blk)),
                    (''severity'', JStr ''CRITICAL'')])]
             @ (if (case map_of (blockCache s) h of
                      None \<Rightarrow> True | Some c \<Rightarrow> c_hash c \<noteq> hash blk)
                then [(''BLOCK_RECEIVED'', receivedData blk)] else []))
       \<and> (\<exists>s'. processBlock_monad e h s = (True, s') \<and>
           emitted s' = emitted s @
             (case map_of (blockCache s) h of
                None \<Rightarrow> []
              | Some c \<Rightarrow>
                  if c_hash c \<noteq> hash blk then [(''BLOCK_REPLACED'', replacedData c blk)] else [])
             @ [(''REORG_DETECTED'', JObj
                   [(''at_height'', JNum h),
                    (''expected_parent'', JStr (c_hash parent)),
                    (''actual_parent'', JStr (parentHash blk)),
                    (''severity'', JStr ''CRITICAL'')])]
             @ (if (case map_of (blockCache s) h of
                      None \<Rightarrow> True | Some c \<Rightarrow> c_hash c \<noteq> hash blk)
                then [(''BLOCK_RECEIVED'', receivedData blk)] else []))"
  using assms(2-4)
  by (simp add: processBlock_fetched [OF assms(1)] processBlock_monad_fetched [OF assms(1)]
        updateCache_emitted checkParent_emitted checkReplaced_emitted
        checkParent_monad_emitted checkReplaced_monad_emitted mismatchData_def)

theorem processBlock_parent_mismatch_witness:
  "(\<exists>s'. processBlock (fakeClient 1 2 chain2_reorg 1) 2 synced2 = Normal s' \<and>
      map fst (drop (length (emitted synced2)) (emitted s')) =
        [''BLOCK_REPLACED'', ''PARENT_HASH_MISMATCH_DETECTED'', ''BLOCK_RECEIVED''])
   \<and> (\<exists>s'. processBlock_monad (fakeClient 1 2 chain2_reorg 1) 2 synced2 = (True, s') \<and>
      map fst (drop (length (emitted synced2)) (emitted s')) =
        [''BLOCK_REPLACED'', ''REORG_DETECTED'', ''BLOCK_RECEIVED''])"
proof -
  let ?blk = "makeBlock 2 ''0xblock2_reorg'' ''0xsome_other_parent'' ''0xs2r'' [''0xtx2x'']"
  let ?p = "fingerprint (makeBlock 1 ''0xblock1'' ''0xgenesis'' ''0xs1'' [''0xtx1a'', ''0xtx1b''])"
  have h1: "getBlock (fakeClient 1 2 chain2_reorg 1) (length (calls synced2))
              (BlockNumber 2 True) = Inr ?blk"
    by (simp add: fakeClient_def chain2_reorg_def chain2_def)
  have h2: "number ?blk = 2"
    by (simp add: makeBlock_def)
  have h3: "map_of (blockCache synced2) (2 - 1) = Some ?p"
    by (simp add: synced2_state chain2_def)
  have h4: "c_hash ?p \<noteq> parentHash ?blk"
    by (simp add: makeBlock_def fingerprint_def)
  have h5: "map_of (blockCache synced2) 2 =
      Some (fingerprint (makeBlock 2 ''0xblock2'' ''0xblock1'' ''0xs2'' [''0xtx2a'', ''0xtx2b'']))"
    by (simp add: synced2_state chain2_def)
  from processBlock_parent_mismatch [OF h1 h2 h3 h4] show ?thesis
    by (clarsimp simp add: h5 makeBlock_def fingerprint_def)
qed

text \<open>
  The event type PARENT\_HASH\_MISMATCH is logged by neither monitor: on scenario S3 of the
  test-suite \<^verbatim>\<open>monitor_reorg.js\<close> logs PARENT\_HASH\_MISMATCH\_DETECTED and the Monad monitor
  logs REORG\_DETECTED.
\<close>

theorem processBlock_parent_mismatch_counterexample:
  "map fst (drop (length (emitted synced2))
      (emitted (stateOf (processBlock (fakeClient 1 2 chain2_reorg 1) 2 synced2)))) =
     [''BLOCK_REPLACED'', ''PARENT_HASH_MISMATCH_DETECTED'', ''BLOCK_RECEIVED'']
   \<and> map fst (drop (length (emitted synced2_monad))
      (emitted (snd (processBlock_monad (fakeClient 1 2 chain2_reorg 1) 2 synced2_monad)))) =
     [''BLOCK_REPLACED'', ''REORG_DETECTED'', ''BLOCK_RECEIVED'']"
  unfolding synced2_eq synced2_monad_eq by code_simp

section \<open>The rewind check\<close>

lemma rewindCheck_rewound:
  "L < maxObservedHeight s \<Longrightarrow>
   rewindCheck L s =
     s\<lparr>maxObservedHeight := L, lastProcessedHeight := L,
       emitted := emitted s @ [(''CHAIN_REWIND'', rewindData (maxObservedHeight s) L)],
       alerts := alerts s @ [(''CHAIN_REWIND'', rewindData (maxObservedHeight s) L)]\<rparr>"
  by (simp add: rewindCheck_def logJson_def sendAlert_def)

lemma rewindCheck_monad_rewound:
  "L < maxObservedHeight s \<Longrightarrow>
   rewindCheck_monad L s =
     s\<lparr>maxObservedHeight := L, lastProcessedHeight := L,
       hourlyStats := (hourlyStats s)\<lparr>chainRewinds := chainRewinds (hourlyStats s) + 1\<rparr>,
       emitted := emitted s @ [(''CHAIN_REWIND'', rewindData (maxObservedHeight s) L)],
       alerts := alerts s @ [(''CHAIN_REWIND'', rewindData (maxObservedHeight s) L)]\<rparr>"
  by (simp add: rewindCheck_monad_def logJson_def sendAlert_def incChainRewinds_def)

lemma rewindCheck_idle:
  "\<not> L < maxObservedHeight s \<Longrightarrow> rewindCheck L s = s"
  "\<not> L < maxObservedHeight s \<Longrightarrow> rewindCheck_monad L s = s"
  by (simp_all add: rewindCheck_def rewindCheck_monad_def)

lemma coldStart_fields [simp]:
  "blockCache (coldStart L s) = blockCache s"
  "maxObservedHeight (coldStart L s) = maxObservedHeight s"
  "alerts (coldStart L s) = alerts s"
  "calls (coldStart L s) = calls s"
  "clockCalls (coldStart L s) = clockCalls s"
  "hourlyStats (coldStart L s) = hourlyStats s"
  by (simp_all add: coldStart_def)

text \<open>
  C3. In a tick that fetches the latest height \<open>L\<close> below \<^verbatim>\<open>maxObservedHeight\<close>, the rewind
  check logs CHAIN\_REWIND with \<open>from_height\<close> the old maximum, \<open>to_height = L\<close> and severity
  CRITICAL, sets \<^verbatim>\<open>maxObservedHeight\<close> and \<^verbatim>\<open>lastProcessedHeight\<close> to \<open>L\<close> and leaves the
  block cache as it was; \<open>s3\<close> is the state right after the check. The forward sync that
  follows has nothing to do, so the tick goes on with the recheck and the pruning. This
  holds for both monitors (in the Monad monitor the check comes after the skipping of the
  history, which never touches the cache).
\<close>

theorem tick_chain_rewind:
  "(fetchTip e cfg s = Inr (L, s2) \<and> L < maxObservedHeight s2 \<longrightarrow>
      (\<exists>s3. tick e cfg s = Normal (prune cfg L (recheck e cfg L s3)) \<and>
         emitted s3 = emitted s2 @
           [(''CHAIN_REWIND'', JObj [(''from_height'', JNum (maxObservedHeight s2)),
              (''to_height'', JNum L), (''severity'', JStr ''CRITICAL'')])] \<and>
         maxObservedHeight s3 = L \<and> lastProcessedHeight s3 = L \<and>
         blockCache s3 = blockCache s2))
   \<and> (fetchTip_monad e cfg s = Inr (L, s2) \<and> L < maxObservedHeight s2 \<longrightarrow>
      (\<exists>s3. tick_monad e cfg s = Normal (prune cfg L (recheck_monad e cfg L s3)) \<and>
         emitted s3 = emitted (coldStart L s2) @
           [(''CHAIN_REWIND'', JObj [(''from_height'', JNum (maxObservedHeight s2)),
              (''to_height'', JNum L), (''severity'', JStr ''CRITICAL'')])] \<and>
         maxObservedHeight s3 = L \<and> lastProcessedHeight s3 = L \<and>
         blockCache s3 = blockCache s2))"
proof (intro conjI impI)
  assume a: "fetchTip e cfg s = Inr (L, s2) \<and> L < maxObservedHeight s2"
  let ?s3 = "rewindCheck L s2"
  have "forwardSync e L ?s3 = ?s3"
    using a by (simp add: forwardSync_def rewindCheck_rewound)
  then have "tick e cfg s = Normal (prune cfg L (recheck e cfg L ?s3))"
    using a by (simp add: tick_fetched)
  moreover have "emitted ?s3 = emitted s2 @
           [(''CHAIN_REWIND'', JObj [(''from_height'', JNum (maxObservedHeight s2)),
              (''to_height'', JNum L), (''severity'', JStr ''CRITICAL'')])]"
    "maxObservedHeight ?s3 = L" "lastProcessedHeight ?s3 = L" "blockCache ?s3 = blockCache s2"
    using a by (simp_all add: rewindCheck_rewound rewindData_def)
  ultimately show "\<exists>s3. tick e cfg s = Normal (prune cfg L (recheck e cfg L s3)) \<and>
         emitted s3 = emitted s2 @
           [(''CHAIN_REWIND'', JObj [(''from_height'', JNum (maxObservedHeight s2)),
              (''to_height'', JNum L), (''severity'', JStr ''CRITICAL'')])] \<and>
         maxObservedHeight s3 = L \<and> lastProcessedHeight s3 = L \<and>
         blockCache s3 = blockCache s2"
    by blast
next
  assume a: "fetchTip_monad e cfg s = Inr (L, s2) \<and> L < maxObservedHeight s2"
  let ?s3 = "rewindCheck_monad L (coldStart L s2)"
  have b: "L < maxObservedHeight (coldStart L s2)"
    using a by simp
  have "forwardSync_monad e L ?s3 = ?s3"
    by (simp add: forwardSync_monad_def rewindCheck_monad_rewound [OF b])
  then have "tick_monad e cfg s = Normal (prune cfg L (recheck_monad e cfg L ?s3))"
    using a by (simp add: tick_monad_fetched)
  moreover have "emitted ?s3 = emitted (coldStart L s2) @
           [(''CHAIN_REWIND'', JObj [(''from_height'', JNum (maxObservedHeight s2)),
              (''to_height'', JNum L), (''severity'', JStr ''CRITICAL'')])]"
    "maxObservedHeight ?s3 = L" "lastProcessedHeight ?s3 = L" "blockCache ?s3 = blockCache s2"
    by (simp_all add: rewindCheck_monad_rewound [OF b] rewindData_def)
  ultimately show "\<exists>s3. tick_monad e cfg s = Normal (prune cfg L (recheck_monad e cfg L s3)) \<and>
         emitted s3 = emitted (coldStart L s2) @
           [(''CHAIN_REWIND'', JObj [(''from_height'', JNum (maxObservedHeight s2)),
              (''to_height'', JNum L), (''severity'', JStr ''CRITICAL'')])] \<and>
         maxObservedHeight s3 = L \<and> lastProcessedHeight s3 = L \<and>
         blockCache s3 = blockCache s2"
    by blast
qed

text \<open>Scenario S1 of the test-suite on the chain of three blocks: after the first tick
  the node reports the latest height 1.\<close>

theorem tick_chain_rewind_witness:
  "(\<exists>s3. tick (fakeClient 1 1 chain2 1) defaults synced2 =
        Normal (prune defaults 1 (recheck (fakeClient 1 1 chain2 1) defaults 1 s3)) \<and>
      emitted s3 = emitted synced2 @
        [(''CHAIN_REWIND'', JObj [(''from_height'', JNum 2),
           (''to_height'', JNum 1), (''severity'', JStr ''CRITICAL'')])] \<and>
      maxObservedHeight s3 = 1 \<and> lastProcessedHeight s3 = 1 \<and>
      blockCache s3 = blockCache synced2)
   \<and> (\<exists>s3. tick_monad (fakeClient 1 1 chain2 1) defaults synced2_monad =
        Normal (prune defaults 1 (recheck_monad (fakeClient 1 1 chain2 1) defaults 1 s3)) \<and>
      emitted s3 = emitted synced2_monad @
        [(''CHAIN_REWIND'', JObj [(''from_height'', JNum 2),
           (''to_height'', JNum 1), (''severity'', JStr ''CRITICAL'')])] \<and>
      maxObservedHeight s3 = 1 \<and> lastProcessedHeight s3 = 1 \<and>
      blockCache s3 = blockCache synced2_monad)"
proof -
  let ?e = "fakeClient 1 1 chain2 1"
  let ?s2 = "synced2\<lparr>calls := calls synced2 @ [GetBlock Latest], clockCalls := 2\<rparr>"
  let ?m2 = "synced2_monad\<lparr>calls := calls synced2_monad @ [GetBlock Latest], clockCalls := 2\<rparr>"
  have f: "fetchTip ?e defaults synced2 = Inr (1, ?s2)"
    unfolding synced2_eq by code_simp
  have g: "fetchTip_monad ?e defaults synced2_monad = Inr (1, ?m2)"
    unfolding synced2_monad_eq by code_simp
  have m: "maxObservedHeight ?s2 = 2" "maxObservedHeight ?m2 = 2"
    by (simp_all add: synced2_eq synced2_monad_eq)
  have c: "emitted (coldStart 1 ?m2) = emitted synced2_monad"
    by (simp add: coldStart_def synced2_monad_eq)
  from tick_chain_rewind [of ?e defaults synced2 1 ?s2]
       tick_chain_rewind [of ?e defaults synced2_monad 1 ?m2]
  show ?thesis
    using f g m c by simp
qed

section \<open>The hourly report\<close>

text \<open>
  C9. Every hourly report takes its \<open>threat_assessment\<close> from the counters by the first
  match in this order: CRITICAL when \<open>chainRewinds > 0\<close>; else HIGH when
  \<open>reorgsDetected > 5\<close> or \<open>blocksReplaced > 10\<close>; else MEDIUM when \<open>reorgsDetected > 0\<close> or
  \<open>blocksReplaced > 0\<close>; else LOW. The report is logged as HOURLY\_REPORT; when the
  assessment is not LOW the same report is handed to \<^verbatim>\<open>sendAlert\<close> as well; afterwards the
  counters are zero and \<open>startTime\<close> is the reading the clock gives then.
\<close>

theorem generateHourlyReport_assessment:
  "\<exists>report.
     emitted (generateHourlyReport e s) = emitted s @ [(''HOURLY_REPORT'', report)] \<and>
     field ''threat_assessment'' report =
       Some (JStr
         (if chainRewinds (hourlyStats s) > 0 then ''CRITICAL''
          else if reorgsDetected (hourlyStats s) > 5 \<or> blocksReplaced (hourlyStats s) > 10
            then ''HIGH''
          else if reorgsDetected (hourlyStats s) > 0 \<or> blocksReplaced (hourlyStats s) > 0
            then ''MEDIUM''
          else ''LOW'')) \<and>
     alerts (generateHourlyReport e s) = alerts s @
       (if field ''threat_assessment'' report = Some (JStr ''LOW'') then []
        else [(''HOURLY_THREAT_REPORT'', report)]) \<and>
     hourlyStats (generateHourlyReport e s) =
       \<lparr>startTime = now e (Suc (clockCalls s)), blocksProcessed = 0, reorgsDetected = 0,
        blocksReplaced = 0, chainRewinds = 0\<rparr>"
proof -
  let ?report = "hourlyReport (now e (clockCalls s)) (hourlyStats s)"
  have "emitted (generateHourlyReport e s) = emitted s @ [(''HOURLY_REPORT'', ?report)]"
    by (simp add: generateHourlyReport_def resetHourlyStats_def callNow_def Let_def)
  moreover have "field ''threat_assessment'' ?report =
       Some (JStr
         (if chainRewinds (hourlyStats s) > 0 then ''CRITICAL''
          else if reorgsDetected (hourlyStats s) > 5 \<or> blocksReplaced (hourlyStats s) > 10
            then ''HIGH''
          else if reorgsDetected (hourlyStats s) > 0 \<or> blocksReplaced (hourlyStats s) > 0
            then ''MEDIUM''
          else ''LOW''))"
    by (simp add: field_def hourlyReport_def threatLevel_def)
  moreover have "alerts (generateHourlyReport e s) = alerts s @
       (if field ''threat_assessment'' ?report = Some (JStr ''LOW'') then []
        else [(''HOURLY_THREAT_REPORT'', ?report)])"
    by (simp add: generateHourlyReport_def resetHourlyStats_def callNow_def Let_def
          field_def hourlyReport_def threatLevel_def)
  moreover have "hourlyStats (generateHourlyReport e s) =
       \<lparr>startTime = now e (Suc (clockCalls s)), blocksProcessed = 0, reorgsDetected = 0,
        blocksReplaced = 0, chainRewinds = 0\<rparr>"
    by (simp add: generateHourlyReport_def resetHourlyStats_def callNow_def Let_def)
  ultimately show ?thesis by blast
qed

section \<open>The loops\<close>

text \<open>
  A relation between the state before and the state after that is reflexive,
  transitive and kept by every step of a loop is kept by the loop. The four lemmas say
  so for the four loops; the facts about events, calls and the cache below are instances.
\<close>

lemma forwardLoop_rel:
  assumes "\<And>t. R t t"
      and "\<And>a b c. R a b \<Longrightarrow> R b c \<Longrightarrow> R a c"
      and "\<And>k t t'. processBlock e k t = Normal t' \<Longrightarrow> R t (t'\<lparr>lastProcessedHeight := k\<rparr>)"
      and "\<And>k t err t'. processBlock e k t = Throw err t' \<Longrightarrow>
             R t (logJson ''RPC_ERROR'' (blockErrorData ''Failed to process block '' k err) t')"
  shows "R s (forwardLoop e L h s)"
  using assms
proof (induction e L h s rule: forwardLoop.induct)
  case (1 e L h s)
  note refl = "1.prems"(1) and trans = "1.prems"(2)
  show ?case
  proof (cases "h \<le> L")
    case False
    then have "forwardLoop e L h s = s"
      by (simp add: forwardLoop.simps)
    then show ?thesis using refl by simp
  next
    case inRange: True
    show ?thesis
    proof (cases "h < 0")
      case True
      have "forwardLoop e L h s = forwardLoop e L (h + 1) s"
        using inRange True by (simp add: forwardLoop.simps [of e L h s])
      moreover have "R s (forwardLoop e L (h + 1) s)"
        by (rule "1.IH"(1) [OF inRange True "1.prems"])
      ultimately show ?thesis by simp
    next
      case nonneg: False
      show ?thesis
      proof (cases "processBlock e h s")
        case (Normal s')
        have a: "R s (s'\<lparr>lastProcessedHeight := h\<rparr>)"
          by (rule "1.prems"(3) [OF Normal])
        have b: "R (s'\<lparr>lastProcessedHeight := h\<rparr>)
                (forwardLoop e L (h + 1) (s'\<lparr>lastProcessedHeight := h\<rparr>))"
          by (rule "1.IH"(2) [OF inRange nonneg Normal "1.prems"])
        have "forwardLoop e L h s =
            forwardLoop e L (h + 1) (s'\<lparr>lastProcessedHeight := h\<rparr>)"
          using inRange nonneg Normal by (simp add: forwardLoop.simps [of e L h s])
        then show ?thesis
          using trans [OF a b] by simp
      next
        case (Throw err s')
        have "forwardLoop e L h s =
            logJson ''RPC_ERROR'' (blockErrorData ''Failed to process block '' h err) s'"
          using inRange nonneg Throw by (simp add: forwardLoop.simps [of e L h s])
        then show ?thesis
          using "1.prems"(4) [OF Throw] by simp
      qed
    qed
  qed
qed

lemma recheckLoop_rel:
  assumes "\<And>t. R t t"
      and "\<And>a b c. R a b \<Longrightarrow> R b c \<Longrightarrow> R a c"
      and "\<And>k t t'. processBlock e k t = Normal t' \<Longrightarrow> R t t'"
      and "\<And>k t err t'. processBlock e k t = Throw err t' \<Longrightarrow>
             R t (logJson ''RPC_ERROR'' (blockErrorData ''Recheck failed for '' k err) t')"
  shows "R s (recheckLoop e h s)"
  using assms
proof (induction e h s rule: recheckLoop.induct)
  case (1 e h s)
  note refl = "1.prems"(1) and trans = "1.prems"(2)
  show ?case
  proof (cases "h \<le> lastProcessedHeight s")
    case False
    then have "recheckLoop e h s = s"
      by (simp add: recheckLoop.simps)
    then show ?thesis using refl by simp
  next
    case inRange: True
    show ?thesis
    proof (cases "processBlock e h s")
      case (Normal s')
      have a: "R s s'"
        by (rule "1.prems"(3) [OF Normal])
      have b: "R s' (recheckLoop e (h + 1) s')"
        by (rule "1.IH"(1) [OF inRange Normal "1.prems"])
      have "recheckLoop e h s = recheckLoop e (h + 1) s'"
        using inRange Normal by (simp add: recheckLoop.simps [of e h s])
      then show ?thesis
        using trans [OF a b] by simp
    next
      case (Throw err s')
      let ?t = "logJson ''RPC_ERROR'' (blockErrorData ''Recheck failed for '' h err) s'"
      have a: "R s ?t"
        by (rule "1.prems"(4) [OF Throw])
      have b: "R ?t (recheckLoop e (h + 1) ?t)"
        by (rule "1.IH"(2) [OF inRange Throw "1.prems"])
      have "recheckLoop e h s = recheckLoop e (h + 1) ?t"
        using inRange Throw by (simp add: recheckLoop.simps [of e h s])
      then show ?thesis
        using trans [OF a b] by simp
    qed
  qed
qed


lemma recheckLoop_monad_rel:
  assumes "\<And>t. R t t"
      and "\<And>a b c. R a b \<Longrightarrow> R b c \<Longrightarrow> R a c"
      and "\<And>k t. R t (snd (processBlock_monad e k t))"
  shows "R s (recheckLoop_monad e L h s)"
  using assms
proof (induction e L h s rule: recheckLoop_monad.induct)
  case (1 e L h s)
  note refl = "1.prems"(1) and trans = "1.prems"(2)
  show ?case
  proof (cases "h \<le> L")
    case False
    then have "recheckLoop_monad e L h s = s"
      by (simp add: recheckLoop_monad.simps)
    then show ?thesis using refl by simp
  next
    case inRange: True
    let ?t = "snd (processBlock_monad e h s)"
    have a: "R s ?t"
      by (rule "1.prems"(3))
    have b: "R ?t (recheckLoop_monad e L (h + 1) ?t)"
      by (rule "1.IH" [OF inRange "1.prems"])
    have "recheckLoop_monad e L h s = recheckLoop_monad e L (h + 1) ?t"
      using inRange by (simp add: recheckLoop_monad.simps [of e L h s])
    then show ?thesis
      using trans [OF a b] by simp
  qed
qed

section \<open>Skipping the history\<close>

lemma processBlock_monad_calls:
  "calls (snd (processBlock_monad e h s)) = calls s @ [GetBlock (BlockNumber h True)]"
  by (cases "getBlock e (length (calls s)) (BlockNumber h True)")
     (simp_all add: processBlock_monad_fetched processBlock_monad_failed)

lemma processBlock_monad_emitted:
  "\<exists>new. emitted (snd (processBlock_monad e h s)) = emitted s @ new"
  by (cases "getBlock e (length (calls s)) (BlockNumber h True)")
     (simp_all add: processBlock_monad_fetched processBlock_monad_failed updateCache_emitted
        checkParent_monad_emitted checkReplaced_monad_emitted)

lemma recheckLoop_monad_calls:
  "calls (recheckLoop_monad e L h s) =
     calls s @ map (\<lambda>k. GetBlock (BlockNumber k True)) [h..L]"
proof (induction e L h s rule: recheckLoop_monad.induct)
  case (1 e L h s)
  show ?case
  proof (cases "h \<le> L")
    case False
    then show ?thesis by (simp add: recheckLoop_monad.simps)
  next
    case True
    then have "[h..L] = h # [h + 1..L]"
      by (simp add: upto_rec1)
    then show ?thesis
      using True "1.IH" [OF True]
      by (simp add: recheckLoop_monad.simps [of e L h s] processBlock_monad_calls)
  qed
qed

lemma recheckLoop_monad_emitted:
  "\<exists>new. emitted (recheckLoop_monad e L h s) = emitted s @ new"
proof (rule recheckLoop_monad_rel [where R = "\<lambda>a b. \<exists>new. emitted b = emitted a @ new"])
  show "\<exists>new. emitted t = emitted t @ new" for t
    by simp
  show "\<exists>new. emitted c = emitted a @ new"
    if "\<exists>new. emitted b = emitted a @ new" "\<exists>new. emitted c = emitted b @ new" for a b c
    using that by auto
  show "\<exists>new. emitted (snd (processBlock_monad e k t)) = emitted t @ new" for k t
    by (rule processBlock_monad_emitted)
qed

lemma forwardSync_monad_single:
  assumes "lastProcessedHeight s = L - 1" and "0 \<le> L"
  shows "forwardSync_monad e L s = (snd (processBlock_monad e L s))\<lparr>lastProcessedHeight := L\<rparr>"
proof -
  have "forwardLoop_monad e L (L + 1) t = t" for t
    by (simp add: forwardLoop_monad.simps)
  then have "forwardLoop_monad e L L s = snd (processBlock_monad e L s)"
    using assms(2) by (simp add: forwardLoop_monad.simps [of e L L s])
  then show ?thesis
    using assms(1) by (simp add: forwardSync_monad_def)
qed

lemma checkMetadata_monad_fields:
  assumes "checkMetadata_monad e cfg t s0 = Normal s1"
  shows "lastProcessedHeight s1 = lastProcessedHeight s0"
    and "maxObservedHeight s1 = maxObservedHeight s0"
    and "calls s1 = calls s0 @
           (if chainMetadataPollMs cfg \<le> t - lastMetadataCheckMs s0
            then [GetChainId, GetBlock (BlockNumber 0 False)] else [])"
  using assms
  by (auto simp: checkMetadata_monad_def callGetChainId_def callGetBlock_def Let_def logJson_def
      split: if_splits sum.splits option.splits)

lemma fetchTip_monad_fields:
  assumes "fetchTip_monad e cfg s = Inr (L, s2)"
  shows "lastProcessedHeight s2 = lastProcessedHeight s"
    and "maxObservedHeight s2 = maxObservedHeight s"
    and "calls s2 = calls s @
           (if chainMetadataPollMs cfg \<le> now e (clockCalls s) - lastMetadataCheckMs s
            then [GetChainId, GetBlock (BlockNumber 0 False)] else []) @ [GetBlock Latest]"
proof -
  let ?s0 = "s\<lparr>clockCalls := Suc (clockCalls s)\<rparr>"
  obtain s1 where m: "checkMetadata_monad e cfg (now e (clockCalls s)) ?s0 = Normal s1"
    and t: "callGetBlock e Latest s1 = (getBlock e (length (calls s1)) Latest, s2)"
    using assms
    by (auto simp: fetchTip_monad_def callNow_def callGetBlock_def
        split: completion.splits sum.splits)
  have s2: "s2 = s1\<lparr>calls := calls s1 @ [GetBlock Latest]\<rparr>"
    using t by (simp add: callGetBlock_def)
  show "lastProcessedHeight s2 = lastProcessedHeight s"
    using checkMetadata_monad_fields(1) [OF m] s2 by simp
  show "maxObservedHeight s2 = maxObservedHeight s"
    using checkMetadata_monad_fields(2) [OF m] s2 by simp
  show "calls s2 = calls s @
           (if chainMetadataPollMs cfg \<le> now e (clockCalls s) - lastMetadataCheckMs s
            then [GetChainId, GetBlock (BlockNumber 0 False)] else []) @ [GetBlock Latest]"
    using checkMetadata_monad_fields(3) [OF m] s2 by simp
qed

text \<open>
  C5 (as amended). In the Monad monitor, a tick that finds \<^verbatim>\<open>lastProcessedHeight = -1\<close> and
  fetches a latest height \<open>L > 0\<close> that is no rewind logs MONITOR\_SKIP\_HISTORY with
  \<open>skipped_to_height = L\<close> and sets \<^verbatim>\<open>lastProcessedHeight\<close> to \<open>L - 1\<close> before the forward
  sync (state \<open>s3\<close>), so the forward sync is the single call \<^verbatim>\<open>processBlock(L)\<close>. Heights
  below \<open>L\<close> are requested in this tick all the same: the recheck calls \<^verbatim>\<open>processBlock\<close> for
  every height from \<open>max 0 (L - recheckDepth + 1)\<close> to \<open>L\<close>, and the metadata check, when
  it is due, asks for block 0 before the tip. The client calls of the whole tick are, in
  this order: the two calls of the metadata check when it is due, the tip, the height
  \<open>L\<close>, and the heights of the recheck window; there is no other call.
\<close>

theorem tick_monad_cold_start:
  assumes "fetchTip_monad e cfg s = Inr (L, s2)"
      and "lastProcessedHeight s = - 1"
      and "L > 0"
      and "maxObservedHeight s \<le> L"
  shows "\<exists>s3 s'.
           s3 = coldStart L s2 \<and>
           emitted s3 = emitted s2 @
             [(''MONITOR_SKIP_HISTORY'',
               JObj [(''message'', JStr ''Skipping historical blocks to start from latest''),
                     (''skipped_to_height'', JNum L)])] \<and>
           lastProcessedHeight s3 = L - 1 \<and>
           forwardSync_monad e L (rewindCheck_monad L s3) =
             (snd (processBlock_monad e L s3))\<lparr>lastProcessedHeight := L\<rparr> \<and>
           tick_monad e cfg s = Normal s' \<and>
           s' = prune cfg L (recheck_monad e cfg L
                  ((snd (processBlock_monad e L s3))\<lparr>lastProcessedHeight := L\<rparr>)) \<and>
           (\<exists>rest. emitted s' = emitted s3 @ rest) \<and>
           calls s' = calls s @
             (if chainMetadataPollMs cfg \<le> now e (clockCalls s) - lastMetadataCheckMs s
              then [GetChainId, GetBlock (BlockNumber 0 False)] else []) @
             GetBlock Latest # GetBlock (BlockNumber L True) #
             map (\<lambda>h. GetBlock (BlockNumber h True)) [max 0 (L - recheckDepth cfg + 1)..L]"
proof -
  let ?s3 = "coldStart L s2"
  let ?s4 = "(snd (processBlock_monad e L ?s3))\<lparr>lastProcessedHeight := L\<rparr>"
  let ?s' = "prune cfg L (recheck_monad e cfg L ?s4)"
  note f = fetchTip_monad_fields [OF assms(1)]
  have ev: "emitted ?s3 = emitted s2 @
             [(''MONITOR_SKIP_HISTORY'',
               JObj [(''message'', JStr ''Skipping historical blocks to start from latest''),
                     (''skipped_to_height'', JNum L)])]"
    and lph: "lastProcessedHeight ?s3 = L - 1"
    using assms(2,3) f(1) by (simp_all add: coldStart_def)
  have idle: "rewindCheck_monad L ?s3 = ?s3"
    using assms(4) f(2) by (simp add: rewindCheck_idle)
  have fwd: "forwardSync_monad e L ?s3 = ?s4"
    using lph assms(3) by (simp add: forwardSync_monad_single)
  have t: "tick_monad e cfg s = Normal ?s'"
    using assms(1) idle fwd by (simp add: tick_monad_fetched)
  obtain n1 where n1: "emitted (snd (processBlock_monad e L ?s3)) = emitted ?s3 @ n1"
    using processBlock_monad_emitted by blast
  obtain n2 where n2: "emitted (recheck_monad e cfg L ?s4) = emitted ?s4 @ n2"
    unfolding recheck_monad_def using recheckLoop_monad_emitted by blast
  have e': "emitted ?s' = emitted ?s3 @ (n1 @ n2)"
    using n1 n2 by (simp add: prune_def)
  have "calls ?s' = calls s2 @ GetBlock (BlockNumber L True) #
             map (\<lambda>h. GetBlock (BlockNumber h True)) [max 0 (L - recheckDepth cfg + 1)..L]"
    by (simp add: prune_def recheck_monad_def recheckLoop_monad_calls processBlock_monad_calls)
  then have c': "calls ?s' = calls s @
             (if chainMetadataPollMs cfg \<le> now e (clockCalls s) - lastMetadataCheckMs s
              then [GetChainId, GetBlock (BlockNumber 0 False)] else []) @
             GetBlock Latest # GetBlock (BlockNumber L True) #
             map (\<lambda>h. GetBlock (BlockNumber h True)) [max 0 (L - recheckDepth cfg + 1)..L]"
    unfolding f(3) by simp
  have fwd': "forwardSync_monad e L (rewindCheck_monad L ?s3) = ?s4"
    using idle fwd by simp
  show ?thesis
    using ev lph fwd' t e' c' by blast
qed

text \<open>The chain of the blocks 0 to 4 at a clock reading that makes the metadata check
  due, with \<^verbatim>\<open>recheckDepth: 2\<close>: block 0 is requested by the metadata check, the heights 3
  and 4 by the forward sync and the recheck, the heights 1 and 2 not at all.\<close>

theorem tick_monad_cold_start_witness:
  "\<exists>(s3::monitor) s'.
     emitted s3 =
       [(''MONITOR_SKIP_HISTORY'',
         JObj [(''message'', JStr ''Skipping historical blocks to start from latest''),
               (''skipped_to_height'', JNum 4)])] \<and>
     lastProcessedHeight s3 = 3 \<and>
     tick_monad (fakeClient 1 4 chain4 10000) (defaults\<lparr>recheckDepth := 2\<rparr>) (initial 0) = Normal s' \<and>
     calls s' =
       [GetChainId, GetBlock (BlockNumber 0 False), GetBlock Latest,
        GetBlock (BlockNumber 4 True), GetBlock (BlockNumber 3 True),
        GetBlock (BlockNumber 4 True)]"
proof -
  let ?e = "fakeClient 1 4 chain4 10000"
  let ?cfg = "defaults\<lparr>recheckDepth := 2\<rparr>"
  let ?s2 = "(initial 0)\<lparr>lastChainId := Some 1, lastGenesisHash := Some ''0xgenesis'',
     lastMetadataCheckMs := 10000,
     calls := [GetChainId, GetBlock (BlockNumber 0 False), GetBlock Latest], clockCalls := 1\<rparr>"
  have f: "fetchTip_monad ?e ?cfg (initial 0) = Inr (4, ?s2)"
    by code_simp
  have h: "lastProcessedHeight (initial 0) = - 1" "(4::int) > 0" "maxObservedHeight (initial 0) \<le> 4"
    by (simp_all add: initial_def)
  have u: "[3..4] = [3, 4::int]"
    by code_simp
  have p: "chainMetadataPollMs ?cfg \<le> now ?e (clockCalls (initial 0)) - lastMetadataCheckMs (initial 0)"
    by (simp add: defaults_def fakeClient_def initial_def)
  from tick_monad_cold_start [OF f h] show ?thesis
  proof (elim exE conjE)
    fix s3 :: monitor and s' :: monitor
    assume a: "emitted s3 = emitted ?s2 @
       [(''MONITOR_SKIP_HISTORY'',
         JObj [(''message'', JStr ''Skipping historical blocks to start from latest''),
               (''skipped_to_height'', JNum 4)])]"
      "lastProcessedHeight s3 = 4 - 1"
      "tick_monad ?e ?cfg (initial 0) = Normal s'"
      "calls s' = calls (initial 0) @
             (if chainMetadataPollMs ?cfg \<le> now ?e (clockCalls (initial 0)) - lastMetadataCheckMs (initial 0)
              then [GetChainId, GetBlock (BlockNumber 0 False)] else []) @
             GetBlock Latest # GetBlock (BlockNumber 4 True) #
             map (\<lambda>h. GetBlock (BlockNumber h True)) [max 0 (4 - recheckDepth ?cfg + 1)..4]"
    have c: "calls s' =
       [GetChainId, GetBlock (BlockNumber 0 False), GetBlock Latest,
        GetBlock (BlockNumber 4 True), GetBlock (BlockNumber 3 True),
        GetBlock (BlockNumber 4 True)]"
      using a(4) p by (simp add: u initial_def)
    show ?thesis
      by (rule exI [of _ s3], rule exI [of _ s']) (use a(1-3) c in \<open>simp add: initial_def\<close>)
  qed
qed

text \<open>
  Heights below \<open>L\<close> are back-filled on a cold start: on the chain of the blocks 0 and 1
  the first tick of the Monad monitor fetches and caches height 0 as well, from its
  recheck. And \<^verbatim>\<open>monitor_reorg.js\<close> skips nothing: its first tick on the chain of three
  blocks logs no MONITOR\_SKIP\_HISTORY and caches all heights from 0 on.
\<close>

theorem tick_cold_start_counterexample:
  "lastProcessedHeight (initial 0) = - 1
   \<and> map fst (emitted (stateOf (tick_monad (fakeClient 1 1 chain1 0) defaults (initial 0)))) =
       [''MONITOR_SKIP_HISTORY'', ''BLOCK_RECEIVED'', ''BLOCK_RECEIVED'']
   \<and> map fst (blockCache (stateOf (tick_monad (fakeClient 1 1 chain1 0) defaults (initial 0)))) =
       [1, 0]
   \<and> calls (stateOf (tick_monad (fakeClient 1 1 chain1 0) defaults (initial 0))) =
       [GetBlock Latest, GetBlock (BlockNumber 1 True),
        GetBlock (BlockNumber 0 True), GetBlock (BlockNumber 1 True)]
   \<and> map fst (emitted (stateOf (tick (fakeClient 1 2 chain2 0) defaults (initial 0)))) =
       [''BLOCK_RECEIVED'', ''BLOCK_RECEIVED'', ''BLOCK_RECEIVED'']
   \<and> map fst (blockCache (stateOf (tick (fakeClient 1 2 chain2 0) defaults (initial 0)))) =
       [0, 1, 2]"
proof -
  let ?s2 = "(initial 0)\<lparr>calls := [GetBlock Latest], clockCalls := 1\<rparr>"
  let ?r = "prune defaults 1 (recheck_monad (fakeClient 1 1 chain1 0) defaults 1
     (forwardSync_monad (fakeClient 1 1 chain1 0) 1 (rewindCheck_monad 1 (coldStart 1 ?s2))))"
  have "fetchTip_monad (fakeClient 1 1 chain1 0) defaults (initial 0) = Inr (1, ?s2)"
    by code_simp
  then have t: "stateOf (tick_monad (fakeClient 1 1 chain1 0) defaults (initial 0)) = ?r"
    by (simp add: tick_monad_fetched)
  have "map fst (emitted ?r) = [''MONITOR_SKIP_HISTORY'', ''BLOCK_RECEIVED'', ''BLOCK_RECEIVED'']"
    by code_simp
  moreover have "map fst (blockCache ?r) = [1, 0]"
    by code_simp
  moreover have "calls ?r = [GetBlock Latest, GetBlock (BlockNumber 1 True),
        GetBlock (BlockNumber 0 True), GetBlock (BlockNumber 1 True)]"
    by code_simp
  moreover have "map fst (emitted synced2) = [''BLOCK_RECEIVED'', ''BLOCK_RECEIVED'', ''BLOCK_RECEIVED'']"
    "map fst (blockCache synced2) = [0, 1, 2]"
    by (simp_all add: synced2_eq chain2_def)
  moreover have "lastProcessedHeight (initial 0) = - 1"
    by (simp add: initial_def)
  ultimately show ?thesis
    unfolding t synced2_def [symmetric] by simp
qed

section \<open>What a tick logs\<close>



lemma logsOnly_same: "emitted b = emitted a \<Longrightarrow> logsOnly P a b"
  by (simp add: logsOnly_def)

lemma logsOnly_one: "emitted b = emitted a @ [ev] \<Longrightarrow> P ev \<Longrightarrow> logsOnly P a b"
  by (simp add: logsOnly_def)











lemma str_includes_sublist: "str_includes s sub \<longleftrightarrow> sublist sub s"
  by (induction s) (simp_all add: sublist_Cons_right)







section \<open>Block not found\<close>



section \<open>The cache\<close>

lemma pruneCache_fold:
  "fold (\<lambda>height c. if height < m then AList.delete height c else c) ks cache =
     filter (\<lambda>(k, v). \<not> (k \<in> set ks \<and> k < m)) cache"
proof (induction ks arbitrary: cache)
  case Nil
  then show ?case by simp
next
  case (Cons k ks)
  show ?case
    by (auto simp: Cons.IH AList.delete_eq intro!: filter_cong)
qed

text \<open>The pruning loop keeps exactly the entries at or above the floor, in their order.\<close>

lemma pruneCache_filter:
  "pruneCache m cache = filter (\<lambda>(k, v). \<not> k < m) cache"
  unfolding pruneCache_def pruneCache_fold
  by (rule filter_cong) force+

lemma processBlock_distinct:
  "distinct (map fst (blockCache s)) \<Longrightarrow>
   distinct (map fst (blockCache (stateOf (processBlock e h s))))"
  by (cases "getBlock e (length (calls s)) (BlockNumber h True)")
     (simp_all add: processBlock_failed processBlock_fetched updateCache_blockCache
        distinct_update)

lemma forwardSync_distinct:
  "distinct (map fst (blockCache s)) \<Longrightarrow> distinct (map fst (blockCache (forwardSync e L s)))"
proof -
  let ?R = "\<lambda>a b. distinct (map fst (blockCache a)) \<longrightarrow> distinct (map fst (blockCache b))"
  have "?R t (forwardLoop e L h t)" for h t
  proof (rule forwardLoop_rel [where R = ?R])
    show "?R t (t'\<lparr>lastProcessedHeight := k\<rparr>)" if "processBlock e k t = Normal t'" for k t t'
      using processBlock_distinct [of t e k] that by simp
    show "?R t (logJson ''RPC_ERROR'' (blockErrorData ''Failed to process block '' k err) t')"
      if "processBlock e k t = Throw err t'" for k t err t'
      using processBlock_distinct [of t e k] that by simp
  qed simp_all
  then show "distinct (map fst (blockCache s)) \<Longrightarrow> ?thesis"
    by (simp add: forwardSync_def)
qed

lemma recheck_distinct:
  "distinct (map fst (blockCache s)) \<Longrightarrow> distinct (map fst (blockCache (recheck e cfg L s)))"
proof -
  let ?R = "\<lambda>a b. distinct (map fst (blockCache a)) \<longrightarrow> distinct (map fst (blockCache b))"
  have "?R t (recheckLoop e h t)" for h t
  proof (rule recheckLoop_rel [where R = ?R])
    show "?R t t'" if "processBlock e k t = Normal t'" for k t t'
      using processBlock_distinct [of t e k] that by simp
    show "?R t (logJson ''RPC_ERROR'' (blockErrorData ''Recheck failed for '' k err) t')"
      if "processBlock e k t = Throw err t'" for k t err t'
      using processBlock_distinct [of t e k] that by simp
  qed simp_all
  then show "distinct (map fst (blockCache s)) \<Longrightarrow> ?thesis"
    by (simp add: recheck_def)
qed

lemma fetchTip_blockCache:
  "fetchTip e cfg s = Inr (L, s2) \<Longrightarrow> blockCache s2 = blockCache s"
  by (auto simp: fetchTip_def callNow_def checkMetadata_def callGetChainId_def
        callGetBlock_def Let_def split: if_splits sum.splits option.splits)

lemma rewindCheck_blockCache [simp]: "blockCache (rewindCheck L s) = blockCache s"
  by (simp add: rewindCheck_def)

lemma interval_length:
  assumes "distinct (map fst xs)" and "\<forall>(k, v) \<in> set xs. m \<le> k \<and> k \<le> (L::int)"
  shows "int (length xs) \<le> max 0 (L - m + 1)"
proof -
  have "length xs = card (set (map fst xs))"
    using distinct_card [OF assms(1)] by simp
  also have "\<dots> \<le> card {m..L}"
    using assms(2) by (intro card_mono) auto
  finally show ?thesis by simp
qed

text \<open>
  C7 (as amended). After the pruning at the end of a tick that fetched the latest height
  \<open>L\<close>, every height in the cache is at least \<open>max 0 (L - cacheDepth + 1)\<close>, and for a
  \<open>cacheDepth\<close> that is not negative the cache holds at most \<open>cacheDepth\<close> entries with a
  height up to \<open>L\<close>. The keys of the cache stay distinct, as they are in the initial
  (empty) cache. Entries above \<open>L\<close> are not pruned.
\<close>

theorem tick_prune_bounds:
  assumes "fetchTip e cfg s = Inr (L, s2)"
      and "distinct (map fst (blockCache s))"
      and "0 \<le> cacheDepth cfg"
  shows "\<exists>s'. tick e cfg s = Normal s' \<and>
           list_all (\<lambda>(h, c). max 0 (L - cacheDepth cfg + 1) \<le> h) (blockCache s') \<and>
           int (length (filter (\<lambda>(h, c). h \<le> L) (blockCache s'))) \<le> cacheDepth cfg \<and>
           distinct (map fst (blockCache s'))"
proof -
  let ?m = "max 0 (L - cacheDepth cfg + 1)"
  let ?s5 = "recheck e cfg L (forwardSync e L (rewindCheck L s2))"
  let ?s' = "prune cfg L ?s5"
  have t: "tick e cfg s = Normal ?s'"
    using assms(1) by (simp add: tick_fetched)
  have c: "blockCache ?s' = filter (\<lambda>(k, v). \<not> k < ?m) (blockCache ?s5)"
    by (simp add: prune_def pruneCache_filter)
  have "distinct (map fst (blockCache s2))"
    using assms(1,2) by (simp add: fetchTip_blockCache)
  then have "distinct (map fst (blockCache ?s5))"
    by (intro recheck_distinct forwardSync_distinct) simp
  then have d: "distinct (map fst (blockCache ?s'))"
    unfolding c by (rule distinct_map_filter)
  have lo: "list_all (\<lambda>(h, c). ?m \<le> h) (blockCache ?s')"
    unfolding c by (auto simp: list_all_iff)
  let ?low = "filter (\<lambda>(h, c). h \<le> L) (blockCache ?s')"
  have "distinct (map fst ?low)"
    using d by (rule distinct_map_filter)
  moreover have "\<forall>(k, v) \<in> set ?low. ?m \<le> k \<and> k \<le> L"
    using lo by (auto simp: list_all_iff)
  ultimately have "int (length ?low) \<le> max 0 (L - ?m + 1)"
    by (rule interval_length)
  also have "\<dots> \<le> cacheDepth cfg"
    using assms(3) by simp
  finally have "int (length ?low) \<le> cacheDepth cfg" .
  with t lo d show ?thesis
    by blast
qed
lemma pruned2_eq:
  "pruned2 = (initial 0)
     \<lparr>blockCache := [(2, fingerprint (the (map_of chain2 2)))],
      maxObservedHeight := 2, lastProcessedHeight := 2,
      emitted := map (\<lambda>(h, b). (''BLOCK_RECEIVED'', receivedData b)) chain2,
      calls := GetBlock Latest # map (\<lambda>h. GetBlock (BlockNumber h True)) [0, 1, 2, 0, 1, 2],
      clockCalls := 1\<rparr>"
proof -
  have "fetchTip (fakeClient 1 2 chain2 0) shallow (initial 0) =
      Inr (2, (initial 0)\<lparr>calls := [GetBlock Latest], clockCalls := 1\<rparr>)"
    by code_simp
  then have "pruned2 = prune shallow 2 (recheck (fakeClient 1 2 chain2 0) shallow 2
     (forwardSync (fakeClient 1 2 chain2 0) 2
        (rewindCheck 2 ((initial 0)\<lparr>calls := [GetBlock Latest], clockCalls := 1\<rparr>))))"
    by (simp add: pruned2_def tick_fetched)
  also have "\<dots> = (initial 0)
     \<lparr>blockCache := [(2, fingerprint (the (map_of chain2 2)))],
      maxObservedHeight := 2, lastProcessedHeight := 2,
      emitted := map (\<lambda>(h, b). (''BLOCK_RECEIVED'', receivedData b)) chain2,
      calls := GetBlock Latest # map (\<lambda>h. GetBlock (BlockNumber h True)) [0, 1, 2, 0, 1, 2],
      clockCalls := 1\<rparr>"
    by code_simp
  finally show ?thesis .
qed

text \<open>Scenario S5 of the test-suite on the chain of three blocks, with \<^verbatim>\<open>cacheDepth: 1\<close>.\<close>

theorem tick_prune_bounds_witness:
  "\<exists>s'. tick (fakeClient 1 2 chain2 0) shallow (initial 0) = Normal s' \<and>
     list_all (\<lambda>(h, c). 2 \<le> h) (blockCache s') \<and>
     int (length (filter (\<lambda>(h, c). h \<le> 2) (blockCache s'))) \<le> 1 \<and>
     distinct (map fst (blockCache s'))"
proof -
  have f: "fetchTip (fakeClient 1 2 chain2 0) shallow (initial 0) =
      Inr (2, (initial 0)\<lparr>calls := [GetBlock Latest], clockCalls := 1\<rparr>)"
    by code_simp
  have d: "distinct (map fst (blockCache (initial 0)))" "0 \<le> cacheDepth shallow"
    by (simp_all add: initial_def shallow_def)
  from tick_prune_bounds [OF f d] show ?thesis
    by (simp add: shallow_def)
qed

text \<open>
  The cache can hold more than \<open>cacheDepth\<close> entries: with \<^verbatim>\<open>cacheDepth: 1\<close>, after a first
  tick at the latest height 2 and a second tick at the latest height 0 (a rewind), the
  cache holds the heights 2 and 0.
\<close>

theorem tick_prune_size_counterexample:
  "map fst (blockCache (stateOf (tick (fakeClient 1 0 chain2 1) shallow
      (stateOf (tick (fakeClient 1 2 chain2 0) shallow (initial 0)))))) = [2, 0]
   \<and> cacheDepth shallow = 1"
proof -
  let ?s2 = "pruned2\<lparr>calls := calls pruned2 @ [GetBlock Latest], clockCalls := 2\<rparr>"
  have "fetchTip (fakeClient 1 0 chain2 1) shallow pruned2 = Inr (0, ?s2)"
    unfolding pruned2_eq by code_simp
  then have st: "stateOf (tick (fakeClient 1 0 chain2 1) shallow pruned2) =
      prune shallow 0 (recheck (fakeClient 1 0 chain2 1) shallow 0
        (forwardSync (fakeClient 1 0 chain2 1) 0 (rewindCheck 0 ?s2)))"
    by (simp add: tick_fetched)
  have "map fst (blockCache (prune shallow 0 (recheck (fakeClient 1 0 chain2 1) shallow 0
        (forwardSync (fakeClient 1 0 chain2 1) 0 (rewindCheck 0 ?s2))))) = [2, 0]"
    unfolding pruned2_eq by code_simp
  moreover have "cacheDepth shallow = 1"
    by (simp add: shallow_def)
  ultimately show ?thesis
    unfolding pruned2_def [symmetric] st by (rule conjI)
qed

section \<open>The forward sync\<close>

lemma processBlock_calls:
  "calls (stateOf (processBlock e h s)) = calls s @ [GetBlock (BlockNumber h True)]"
  by (cases "getBlock e (length (calls s)) (BlockNumber h True)")
     (simp_all add: processBlock_failed processBlock_fetched)

text \<open>
  The forward sync of \<^verbatim>\<open>monitor_reorg.js\<close>, started at \<open>h = lastProcessedHeight + 1\<close>: it
  fetches the heights from \<open>h\<close> on in increasing order, one call each;
  \<^verbatim>\<open>lastProcessedHeight\<close> ends at the last height that was processed; and when that is below
  \<open>L\<close>, the next height is the last one fetched, it failed, and the last event logged is
  the RPC\_ERROR that names it.
\<close>

lemma forwardLoop_stops_at_failure:
  assumes "0 \<le> h" and "lastProcessedHeight s = h - 1"
  shows "h - 1 \<le> lastProcessedHeight (forwardLoop e L h s) \<and>
         lastProcessedHeight (forwardLoop e L h s) \<le> max L (h - 1) \<and>
         calls (forwardLoop e L h s) = calls s @
           map (\<lambda>k. GetBlock (BlockNumber k True))
             [h..min L (lastProcessedHeight (forwardLoop e L h s) + 1)] \<and>
         (lastProcessedHeight (forwardLoop e L h s) < L \<longrightarrow>
            (\<exists>err. emitted (forwardLoop e L h s) \<noteq> [] \<and>
               last (emitted (forwardLoop e L h s)) =
                 (''RPC_ERROR'',
                  JObj [(''message'', JStr (''Failed to process block '' @
                           toString (lastProcessedHeight (forwardLoop e L h s) + 1))),
                        (''error'', err_message err)])))"
  using assms
proof (induction e L h s rule: forwardLoop.induct)
  case (1 e L h s)
  show ?case
  proof (cases "h \<le> L")
    case False
    then have "forwardLoop e L h s = s"
      by (simp add: forwardLoop.simps)
    then show ?thesis
      using False "1.prems" by simp
  next
    case inRange: True
    have nonneg: "\<not> h < 0"
      using "1.prems"(1) by simp
    show ?thesis
    proof (cases "processBlock e h s")
      case (Normal s')
      let ?t = "s'\<lparr>lastProcessedHeight := h\<rparr>"
      let ?r = "forwardLoop e L (h + 1) ?t"
      have r: "forwardLoop e L h s = ?r"
        using inRange nonneg Normal by (simp add: forwardLoop.simps [of e L h s])
      have c: "calls ?t = calls s @ [GetBlock (BlockNumber h True)]"
        using processBlock_calls [of e h s] Normal by simp
      have ih: "h \<le> lastProcessedHeight ?r \<and>
         lastProcessedHeight ?r \<le> max L h \<and>
         calls ?r = calls ?t @
           map (\<lambda>k. GetBlock (BlockNumber k True)) [h + 1..min L (lastProcessedHeight ?r + 1)] \<and>
         (lastProcessedHeight ?r < L \<longrightarrow>
            (\<exists>err. emitted ?r \<noteq> [] \<and>
               last (emitted ?r) =
                 (''RPC_ERROR'',
                  JObj [(''message'', JStr (''Failed to process block '' @
                           toString (lastProcessedHeight ?r + 1))),
                        (''error'', err_message err)])))"
        using "1.IH"(2) [OF inRange nonneg Normal] "1.prems"(1) by simp
      have "h \<le> min L (lastProcessedHeight ?r + 1)"
        using ih inRange by simp
      then have "[h..min L (lastProcessedHeight ?r + 1)] =
          h # [h + 1..min L (lastProcessedHeight ?r + 1)]"
        by (simp add: upto_rec1)
      then show ?thesis
        unfolding r using ih c inRange by simp
    next
      case (Throw err s')
      let ?r = "logJson ''RPC_ERROR'' (blockErrorData ''Failed to process block '' h err) s'"
      have r: "forwardLoop e L h s = ?r"
        using inRange nonneg Throw by (simp add: forwardLoop.simps [of e L h s])
      have l: "lastProcessedHeight s' = h - 1"
        using processBlock_lastProcessedHeight [of e h s s' err] Throw "1.prems"(2) by simp
      have c: "calls s' = calls s @ [GetBlock (BlockNumber h True)]"
        using processBlock_calls [of e h s] Throw by simp
      have "min L h = h"
        using inRange by simp
      then show ?thesis
        unfolding r using l c inRange by (auto simp: blockErrorData_def)
    qed
  qed
qed

text \<open>
  C4 fails on the Monad monitor. Its \<^verbatim>\<open>processBlock\<close> catches the error and returns
  \<^verbatim>\<open>false\<close>, its forward sync ignores the result and sets \<^verbatim>\<open>lastProcessedHeight\<close> to the
  latest height after the loop. With the heights 0 to 2 synced, the chain at height 4
  and the fetch of height 3 failing with \<open>boom\<close>, the tick of the Monad monitor logs
  BLOCK\_RECEIVED for height 4 only, no RPC\_ERROR, ends with \<^verbatim>\<open>lastProcessedHeight = 4\<close> and
  has height 4 cached without height 3. On the same input the tick of
  \<^verbatim>\<open>monitor_reorg.js\<close> logs the RPC\_ERROR that names height 3 and stays at
  \<^verbatim>\<open>lastProcessedHeight = 2\<close>.
\<close>

theorem tick_monad_skips_failed_height:
  "lastProcessedHeight (stateOf (tick_monad (flakyClient 4 chain4 3 ''boom'' 1) defaults
      synced2_monad)) = 4
   \<and> drop (length (emitted synced2_monad))
       (emitted (stateOf (tick_monad (flakyClient 4 chain4 3 ''boom'' 1) defaults
          synced2_monad))) =
       [(''BLOCK_RECEIVED'',
         receivedData (makeBlock 4 ''0xblock4'' ''0xblock3'' ''0xs4'' [''0xtx4a'', ''0xtx4b'']))]
   \<and> map fst (blockCache (stateOf (tick_monad (flakyClient 4 chain4 3 ''boom'' 1) defaults
       synced2_monad))) = [2, 0, 1, 4]
   \<and> lastProcessedHeight (stateOf (tick (flakyClient 4 chain4 3 ''boom'' 1) defaults
       synced2)) = 2
   \<and> drop (length (emitted synced2))
       (emitted (stateOf (tick (flakyClient 4 chain4 3 ''boom'' 1) defaults synced2))) =
       [(''RPC_ERROR'',
         JObj [(''message'', JStr ''Failed to process block 3''), (''error'', JStr ''boom'')])]"
proof -
  let ?e = "flakyClient 4 chain4 3 ''boom'' 1"
  let ?m2 = "synced2_monad\<lparr>calls := calls synced2_monad @ [GetBlock Latest], clockCalls := 2\<rparr>"
  let ?s2 = "synced2\<lparr>calls := calls synced2 @ [GetBlock Latest], clockCalls := 2\<rparr>"
  let ?m = "prune defaults 4 (recheck_monad ?e defaults 4
      (forwardSync_monad ?e 4 (rewindCheck_monad 4 (coldStart 4 ?m2))))"
  let ?s = "prune defaults 4 (recheck ?e defaults 4 (forwardSync ?e 4 (rewindCheck 4 ?s2)))"
  have "fetchTip_monad ?e defaults synced2_monad = Inr (4, ?m2)"
    unfolding synced2_monad_eq by code_simp
  then have m: "stateOf (tick_monad ?e defaults synced2_monad) = ?m"
    by (simp add: tick_monad_fetched)
  have "fetchTip ?e defaults synced2 = Inr (4, ?s2)"
    unfolding synced2_eq by code_simp
  then have s: "stateOf (tick ?e defaults synced2) = ?s"
    by (simp add: tick_fetched)
  have "lastProcessedHeight ?m = 4"
    unfolding synced2_monad_eq by code_simp
  moreover have "drop (length (emitted synced2_monad)) (emitted ?m) =
       [(''BLOCK_RECEIVED'',
         receivedData (makeBlock 4 ''0xblock4'' ''0xblock3'' ''0xs4'' [''0xtx4a'', ''0xtx4b'']))]"
    unfolding synced2_monad_eq by code_simp
  moreover have "map fst (blockCache ?m) = [2, 0, 1, 4]"
    unfolding synced2_monad_eq by code_simp
  moreover have "lastProcessedHeight ?s = 2"
    unfolding synced2_eq by code_simp
  moreover have "drop (length (emitted synced2)) (emitted ?s) =
       [(''RPC_ERROR'',
         JObj [(''message'', JStr ''Failed to process block 3''), (''error'', JStr ''boom'')])]"
    unfolding synced2_eq by code_simp
  ultimately show ?thesis
    unfolding m s by (intro conjI)
qed

section \<open>Totality of tick\<close>




























end
